theory Spec2Isabelle
  imports Complex_Main "HOL-Library.Word"
begin

unbundle bit_operations_syntax

section \<open>Data model of the native event filter (winnativeeventfilter.cpp)\<close>

text \<open>
  Handles are natural numbers, 0 standing for the null handle. \<open>UINT\<close> values (DPI
  numbers, app-bar states and edges) are 32-bit words. \<open>int\<close> and \<open>LONG\<close> are
  mathematical integers: signed overflow is undefined in C++, so the model covers the runs
  in which the few sums and differences of window coordinates stay in range. The message
  number and the two message parameters are naturals; where the code cuts one of them to
  fewer bits the cut is written out. A \<open>qreal\<close> is a double: the model keeps it as the
  real number it stands for and rounds the result of every floating-point operation to
  the nearest double (\<open>dbl\<close> below).
\<close>

type_synonym HWND = nat
type_synonym HMONITOR = nat
type_synonym UINT = "32 word"
type_synonym LRESULT = int
type_synonym qreal = real

abbreviation (input) USER_DEFAULT_SCREEN_DPI :: "'a::numeral" where
  "USER_DEFAULT_SCREEN_DPI \<equiv> 96"
abbreviation (input) m_defaultDPR :: qreal where "m_defaultDPR \<equiv> 1"

abbreviation (input) SM_CYCAPTION :: int where "SM_CYCAPTION \<equiv> 4"
abbreviation (input) SM_CXFRAME :: int where "SM_CXFRAME \<equiv> 32"
abbreviation (input) SM_CYFRAME :: int where "SM_CYFRAME \<equiv> 33"
abbreviation (input) SM_CXPADDEDBORDER :: int where "SM_CXPADDEDBORDER \<equiv> 92"

abbreviation (input) HTCLIENT :: LRESULT where "HTCLIENT \<equiv> 1"
abbreviation (input) HTCAPTION :: LRESULT where "HTCAPTION \<equiv> 2"
abbreviation (input) HTLEFT :: LRESULT where "HTLEFT \<equiv> 10"
abbreviation (input) HTRIGHT :: LRESULT where "HTRIGHT \<equiv> 11"
abbreviation (input) HTTOP :: LRESULT where "HTTOP \<equiv> 12"
abbreviation (input) HTTOPLEFT :: LRESULT where "HTTOPLEFT \<equiv> 13"
abbreviation (input) HTTOPRIGHT :: LRESULT where "HTTOPRIGHT \<equiv> 14"
abbreviation (input) HTBOTTOM :: LRESULT where "HTBOTTOM \<equiv> 15"
abbreviation (input) HTBOTTOMLEFT :: LRESULT where "HTBOTTOMLEFT \<equiv> 16"
abbreviation (input) HTBOTTOMRIGHT :: LRESULT where "HTBOTTOMRIGHT \<equiv> 17"

subsection \<open>Qt value types used by the filter\<close>

text \<open>
  \<open>QRect\<close> as Qt stores it: the two corner points, the right and bottom ones inclusive.
  \<open>QRect(x, y, w, h)\<close> is \<open>mkQRect x y w h\<close>.
\<close>

record QRect =
  x1 :: int
  y1 :: int
  x2 :: int
  y2 :: int

definition mkQRect :: "int \<Rightarrow> int \<Rightarrow> int \<Rightarrow> int \<Rightarrow> QRect" where
  "mkQRect x y w h = \<lparr>x1 = x, y1 = y, x2 = x + w - 1, y2 = y + h - 1\<rparr>"

definition rect_x :: "QRect \<Rightarrow> int" where "rect_x r = x1 r"
definition rect_y :: "QRect \<Rightarrow> int" where "rect_y r = y1 r"
definition rect_width :: "QRect \<Rightarrow> int" where "rect_width r = x2 r - x1 r + 1"
definition rect_height :: "QRect \<Rightarrow> int" where "rect_height r = y2 r - y1 r + 1"

definition isValid :: "QRect \<Rightarrow> bool" where
  "isValid r \<longleftrightarrow> x1 r \<le> x2 r \<and> y1 r \<le> y2 r"

text \<open>
  \<open>QRect::contains(x, y, proper)\<close>: a rectangle built with a negative extent is read
  with its sides swapped; with \<open>proper\<close> the point has to lie strictly inside the edges.
\<close>

definition contains :: "QRect \<Rightarrow> int \<Rightarrow> int \<Rightarrow> bool \<Rightarrow> bool" where
  "contains r px py proper =
     (let (l, rr) = (if x2 r < x1 r - 1 then (x2 r, x1 r) else (x1 r, x2 r));
          (t, b) = (if y2 r < y1 r - 1 then (y2 r, y1 r) else (y1 r, y2 r))
      in if (if proper then px \<le> l \<or> px \<ge> rr else px < l \<or> px > rr) then False
         else if (if proper then py \<le> t \<or> py \<ge> b else py < t \<or> py > b) then False
         else True)"

record QSize =
  wd :: int
  ht :: int

definition isEmpty_size :: "QSize \<Rightarrow> bool" where
  "isEmpty_size sz \<longleftrightarrow> wd sz < 1 \<or> ht sz < 1"

subsection \<open>Double arithmetic\<close>

text \<open>
  The double nearest to a real number: with \<open>e\<close> the binary exponent of the number,
  the doubles around it are the multiples of \<open>2\<^sup>e\<^sup>-\<^sup>5\<^sup>2\<close>, and the number goes to the
  nearest of them, to the one with the even multiplier when it lies half-way. Overflow
  and subnormal numbers are left out: the numbers here are pixel counts and scale
  factors. A 32-bit integer converts to a double without rounding.
\<close>

definition rne :: "real \<Rightarrow> int" where
  "rne x = (let f = \<lfloor>x\<rfloor>; d = x - of_int f
            in if d < 1/2 then f else if d > 1/2 then f + 1
               else if even f then f else f + 1)"

definition expo :: "real \<Rightarrow> int" where
  "expo r = \<lfloor>log 2 \<bar>r\<bar>\<rfloor>"

definition dbl :: "real \<Rightarrow> real" where
  "dbl r = (if r = 0 then 0
            else of_int (rne (r / 2 powr (of_int (expo r) - 52)))
                 * 2 powr (of_int (expo r) - 52))"

text \<open>Conversion of a double to \<open>int\<close> truncates towards zero.\<close>

definition toInt :: "qreal \<Rightarrow> int" where
  "toInt r = (if 0 \<le> r then \<lfloor>r\<rfloor> else \<lceil>r\<rceil>)"

definition qFloor :: "qreal \<Rightarrow> int" where
  "qFloor v = (let i = toInt v in i - (if v < of_int i then 1 else 0))"

definition qCeil :: "qreal \<Rightarrow> int" where
  "qCeil v = (let i = toInt v in i + (if v > of_int i then 1 else 0))"

definition qRound :: "qreal \<Rightarrow> int" where
  "qRound d = (if 0 \<le> d then toInt (dbl (d + 1/2)) else toInt (dbl (d - 1/2)))"

datatype HighDpiScaleFactorRoundingPolicy =
  Unset | Round | Ceil | Floor | RoundPreferFloor | PassThrough

subsection \<open>Win32 structures\<close>

record RECT =
  left :: int
  top :: int
  right :: int
  bottom :: int

record POINT =
  px :: int
  py :: int

record MONITORINFO =
  rcMonitor :: RECT
  rcWork :: RECT

subsection \<open>Per-window data\<close>

record WINDOWDATA =
  blurEnabled :: bool
  wd_borderWidth :: int
  wd_borderHeight :: int
  wd_titlebarHeight :: int
  ignoreAreas :: "QRect list"
  draggableAreas :: "QRect list"
  minimumSize :: QSize

record WINDOW =
  hWnd :: HWND
  dwmCompositionEnabled :: bool
  themeEnabled :: bool
  inited :: bool
  windowData :: WINDOWDATA

subsection \<open>The environment a call runs in\<close>

text \<open>
  What the operating system and Qt answer during one call of the filter. The
  \<open>m_...\<close> fields are the function pointers that \<open>initDLLs\<close> resolves once:
  \<open>None\<close> (\<open>False\<close> for \<open>m_SetWindowCompositionAttribute\<close>, which is only called
  for its effect) is the null pointer of an API this system does not have.
  \<open>GetMonitorInfoW\<close>, \<open>GetClientRect\<close> and \<open>ABM_GETTASKBARPOS\<close> answer
  \<open>None\<close> when the call fails and leaves the caller's zeroed structure as it was.
  \<open>m_GetDpiForMonitor\<close> maps the initial values of its two out-parameters to their
  final values. \<open>highDpiScaleFactorRoundingPolicy\<close> is \<open>None\<close> for a Qt older than
  5.14, which has no such setting. \<open>new_WINDOW\<close> is a default-constructed \<open>WINDOW\<close>:
  the header that declares the member initialisers is not part of the sources, so the
  value is a parameter.
\<close>

record QWindow =
  has_handle :: bool
  winId :: nat

record Env =
  m_GetSystemDpiForProcess :: "(nat \<Rightarrow> UINT) option"
  m_GetDpiForWindow :: "(HWND \<Rightarrow> UINT) option"
  m_GetDpiForSystem :: "UINT option"
  m_GetSystemMetricsForDpi :: "(int \<Rightarrow> UINT \<Rightarrow> int) option"
  m_GetDpiForMonitor :: "(HMONITOR \<Rightarrow> UINT \<times> UINT \<Rightarrow> UINT \<times> UINT) option"
  m_SetWindowCompositionAttribute :: bool
  GetCurrentProcess :: nat
  D2D1_GetDesktopDpi :: "(qreal \<times> qreal) option"
  GetDC_LOGPIXELS :: "(int \<times> int) option"
  highDpiScaleFactorRoundingPolicy :: "HighDpiScaleFactorRoundingPolicy option"
  GetSystemMetrics :: "int \<Rightarrow> int"
  MonitorFromWindow :: "HWND \<Rightarrow> HMONITOR"
  GetMonitorInfoW :: "HMONITOR \<Rightarrow> MONITORINFO option"
  IsMaximized :: "HWND \<Rightarrow> bool"
  GetClientRect :: "HWND \<Rightarrow> RECT option"
  ScreenToClient :: "HWND \<Rightarrow> POINT \<Rightarrow> POINT"
  ABM_GETSTATE :: UINT
  FindWindow_Shell_TrayWnd :: HWND
  ABM_GETTASKBARPOS :: "UINT option"
  DwmIsCompositionEnabled :: bool
  IsThemeActive :: bool
  osVersion :: "int \<times> int \<times> int"
  topLevelWindows :: "QWindow list"
  DefWindowProcW :: "HWND \<Rightarrow> nat \<Rightarrow> nat \<Rightarrow> int \<Rightarrow> LRESULT"
  new_WINDOW :: WINDOW

subsection \<open>The state the filter owns or changes\<close>

text \<open>
  \<open>m_framelessWindows\<close> is the file's global vector, \<open>installed\<close> says whether
  \<open>instance\<close> holds the filter object, \<open>GWLP_USERDATA\<close> is the per-window user-data
  slot with the \<open>WINDOW\<close> it points to (\<open>None\<close>: a null slot), \<open>GWL_STYLE\<close> the
  window style word, and \<open>calls\<close> the other operating-system calls made so far, oldest
  first. A call such as \<open>SetWindowPos\<close> makes the system send further messages to the
  window; those are later calls of the filter, not part of the call that logs them.
\<close>

datatype oscall =
  InstallNativeEventFilter
  | SetWindowLongPtr_EXSTYLE HWND
  | SetLayeredWindowAttributes HWND
  | DwmSetWindowAttribute_NCRENDERING HWND
  | DwmExtendFrameIntoClientArea HWND
  | DwmEnableBlurBehindWindow HWND
  | SetWindowCompositionAttribute HWND nat
  | SetWindowPos_FRAMECHANGED HWND
  | SendMessage_WM_SIZE HWND
  | UpdateWindow HWND
  | InvalidateRect HWND
  | DefWindowProc HWND nat

record World =
  m_framelessWindows :: "HWND list"
  installed :: bool
  GWLP_USERDATA :: "HWND \<rightharpoonup> WINDOW"
  GWL_STYLE :: "HWND \<Rightarrow> nat"
  calls :: "oscall list"

definition oscall :: "oscall \<Rightarrow> World \<Rightarrow> World" where
  "oscall c s = s\<lparr>calls := calls s @ [c]\<rparr>"

text \<open>\<open>SetWindowLongPtrW(h, GWL_STYLE, v)\<close>.\<close>

definition setStyle :: "HWND \<Rightarrow> nat \<Rightarrow> World \<Rightarrow> World" where
  "setStyle h v s = s\<lparr>GWL_STYLE := (GWL_STYLE s)(h := v)\<rparr>"

section \<open>Per-window user data\<close>

definition createUserData :: "Env \<Rightarrow> World \<Rightarrow> HWND \<Rightarrow> WINDOWDATA option \<Rightarrow> World" where
  "createUserData env s handle data =
     (if handle \<noteq> 0 then
        (case GWLP_USERDATA s handle of
           Some userData \<Rightarrow>
             (case data of
                Some d \<Rightarrow> s\<lparr>GWLP_USERDATA := (GWLP_USERDATA s)(handle \<mapsto> userData\<lparr>windowData := d\<rparr>)\<rparr>
              | None \<Rightarrow> s)
         | None \<Rightarrow>
             (let d0 = (new_WINDOW env)\<lparr>hWnd := handle\<rparr>;
                  d1 = (case data of Some d \<Rightarrow> d0\<lparr>windowData := d\<rparr> | None \<Rightarrow> d0)
              in s\<lparr>GWLP_USERDATA := (GWLP_USERDATA s)(handle \<mapsto> d1)\<rparr>))
      else s)"

definition updateWindow :: "World \<Rightarrow> HWND \<Rightarrow> World" where
  "updateWindow s handle =
     (if handle \<noteq> 0 then
        oscall (UpdateWindow handle)
          (oscall (SendMessage_WM_SIZE handle) (oscall (SetWindowPos_FRAMECHANGED handle) s))
      else s)"

section \<open>DPI and scale factor\<close>

text \<open>Conversions to \<open>UINT\<close> of a float (truncated) and of an \<open>int\<close> (modulo \<open>2^32\<close>).\<close>

definition float_to_UINT :: "qreal \<Rightarrow> UINT" where
  "float_to_UINT r = word_of_int (toInt r)"

definition int_to_UINT :: "int \<Rightarrow> UINT" where
  "int_to_UINT i = word_of_int i"

definition getScreenDpi :: "Env \<Rightarrow> UINT \<Rightarrow> UINT" where
  "getScreenDpi env defaultValue =
     (case D2D1_GetDesktopDpi env of
        Some (dpiX, dpiY) \<Rightarrow> float_to_UINT dpiX
      | None \<Rightarrow>
          (case GetDC_LOGPIXELS env of
             Some (dpiX, dpiY) \<Rightarrow> int_to_UINT (if dpiX = dpiY then dpiY else dpiX)
           | None \<Rightarrow> defaultValue))"

definition getDpiForWindow :: "Env \<Rightarrow> HWND \<Rightarrow> UINT" where
  "getDpiForWindow env handle =
     (if handle = 0 then
        (case m_GetSystemDpiForProcess env of
           Some f \<Rightarrow> f (GetCurrentProcess env)
         | None \<Rightarrow>
             (case m_GetDpiForSystem env of
                Some d \<Rightarrow> d
              | None \<Rightarrow> getScreenDpi env USER_DEFAULT_SCREEN_DPI))
      else
        (case m_GetDpiForWindow env of
           Some f \<Rightarrow> f handle
         | None \<Rightarrow>
             (case m_GetDpiForMonitor env of
                Some g \<Rightarrow>
                  fst (g (MonitorFromWindow env handle)
                         (USER_DEFAULT_SCREEN_DPI, USER_DEFAULT_SCREEN_DPI))
              | None \<Rightarrow> getScreenDpi env USER_DEFAULT_SCREEN_DPI)))"

definition getDprForWindow :: "Env \<Rightarrow> HWND \<Rightarrow> qreal" where
  "getDprForWindow env handle =
     (let dpr = (if handle \<noteq> 0
                 then dbl (real (unat (getDpiForWindow env handle)) / USER_DEFAULT_SCREEN_DPI)
                 else m_defaultDPR)
      in case highDpiScaleFactorRoundingPolicy env of
           None \<Rightarrow> of_int (qRound dpr)
         | Some PassThrough \<Rightarrow> dpr
         | Some Floor \<Rightarrow> of_int (qFloor dpr)
         | Some Ceil \<Rightarrow> of_int (qCeil dpr)
         | Some _ \<Rightarrow> of_int (qRound dpr))"

definition getSystemMetricsForWindow :: "Env \<Rightarrow> HWND \<Rightarrow> int \<Rightarrow> int" where
  "getSystemMetricsForWindow env handle index =
     (case m_GetSystemMetricsForDpi env of
        Some f \<Rightarrow>
          (let dpi = getDpiForWindow env handle;
               shouldRound = (case highDpiScaleFactorRoundingPolicy env of
                                None \<Rightarrow> True | Some p \<Rightarrow> p \<noteq> PassThrough);
               base = (USER_DEFAULT_SCREEN_DPI :: real);
               dpi' = (if shouldRound then
                         (if real (unat dpi) < dbl (base * 1.5) then USER_DEFAULT_SCREEN_DPI
                          else if real (unat dpi) = dbl (base * 1.5)
                            then float_to_UINT (dbl (base * 1.5))
                          else if real (unat dpi) < dbl (base * 2.5)
                            then USER_DEFAULT_SCREEN_DPI * 2
                          else if real (unat dpi) = dbl (base * 2.5)
                            then float_to_UINT (dbl (base * 2.5))
                          else if real (unat dpi) < dbl (base * 3.5)
                            then USER_DEFAULT_SCREEN_DPI * 3
                          else if real (unat dpi) = dbl (base * 3.5)
                            then float_to_UINT (dbl (base * 3.5))
                          else if real (unat dpi) < dbl (base * 4.5)
                            then USER_DEFAULT_SCREEN_DPI * 4
                          else dpi)
                       else dpi)
           in f index dpi')
      | None \<Rightarrow>
          toInt (dbl (of_int (GetSystemMetrics env index) * getDprForWindow env handle)))"

section \<open>Border and title-bar metrics\<close>

text \<open>
  Each of the three functions first makes sure the window has its user data
  (\<open>createUserData\<close>), so it returns the state with the value. After that call the
  slot of a non-null handle is never empty (lemma \<open>createUserData_slot\<close> below), so the
  \<open>None\<close> branch of the look-up is never taken.
\<close>

definition borderWidth :: "Env \<Rightarrow> World \<Rightarrow> HWND \<Rightarrow> int \<times> World" where
  "borderWidth env s handle =
     (let dflt = getSystemMetricsForWindow env handle SM_CXFRAME
                 + getSystemMetricsForWindow env handle SM_CXPADDEDBORDER
      in if handle \<noteq> 0 then
           (let s' = createUserData env s handle None
            in case GWLP_USERDATA s' handle of
                 Some userData \<Rightarrow>
                   (let bw = wd_borderWidth (windowData userData)
                    in if bw > 0 then (toInt (dbl (of_int bw * getDprForWindow env handle)), s')
                       else (dflt, s'))
               | None \<Rightarrow> (dflt, s'))
         else (dflt, s))"

definition borderHeight :: "Env \<Rightarrow> World \<Rightarrow> HWND \<Rightarrow> int \<times> World" where
  "borderHeight env s handle =
     (let dflt = getSystemMetricsForWindow env handle SM_CYFRAME
                 + getSystemMetricsForWindow env handle SM_CXPADDEDBORDER
      in if handle \<noteq> 0 then
           (let s' = createUserData env s handle None
            in case GWLP_USERDATA s' handle of
                 Some userData \<Rightarrow>
                   (let bh = wd_borderHeight (windowData userData)
                    in if bh > 0 then (toInt (dbl (of_int bh * getDprForWindow env handle)), s')
                       else (dflt, s'))
               | None \<Rightarrow> (dflt, s'))
         else (dflt, s))"

definition titlebarHeight_default :: "Env \<Rightarrow> World \<Rightarrow> HWND \<Rightarrow> int \<times> World" where
  "titlebarHeight_default env s handle =
     (let (bh, s') = borderHeight env s handle
      in (bh + getSystemMetricsForWindow env handle SM_CYCAPTION, s'))"

definition titlebarHeight :: "Env \<Rightarrow> World \<Rightarrow> HWND \<Rightarrow> int \<times> World" where
  "titlebarHeight env s handle =
     (if handle \<noteq> 0 then
        (let s' = createUserData env s handle None
         in case GWLP_USERDATA s' handle of
              Some userData \<Rightarrow>
                (let tbh = wd_titlebarHeight (windowData userData)
                 in if tbh > 0 then (toInt (dbl (of_int tbh * getDprForWindow env handle)), s')
                    else titlebarHeight_default env s' handle)
            | None \<Rightarrow> titlebarHeight_default env s' handle)
      else titlebarHeight_default env s handle)"

section \<open>Hit testing (WM_NCHITTEST)\<close>

text \<open>
  \<open>GET_X_LPARAM\<close> and \<open>GET_Y_LPARAM\<close> read the low and the high 16 bits of the
  message parameter as signed shorts.
\<close>

definition LOWORD :: "int \<Rightarrow> int" where "LOWORD l = l mod 65536"
definition HIWORD :: "int \<Rightarrow> int" where "HIWORD l = (l div 65536) mod 65536"
definition short :: "int \<Rightarrow> int" where "short w = (if w \<ge> 32768 then w - 65536 else w)"
definition GET_X_LPARAM :: "int \<Rightarrow> int" where "GET_X_LPARAM lp = short (LOWORD lp)"
definition GET_Y_LPARAM :: "int \<Rightarrow> int" where "GET_Y_LPARAM lp = short (HIWORD lp)"

definition scaled :: "QRect \<Rightarrow> qreal \<Rightarrow> QRect" where
  "scaled area dpr =
     mkQRect (toInt (dbl (of_int (rect_x area) * dpr)))
             (toInt (dbl (of_int (rect_y area) * dpr)))
             (toInt (dbl (of_int (rect_width area) * dpr)))
             (toInt (dbl (of_int (rect_height area) * dpr)))"

fun isInSpecificAreas :: "int \<Rightarrow> int \<Rightarrow> QRect list \<Rightarrow> qreal \<Rightarrow> bool" where
  "isInSpecificAreas x y [] dpr = False"
| "isInSpecificAreas x y (area # areas) dpr =
     (if \<not> isValid area then isInSpecificAreas x y areas dpr
      else if contains (scaled area dpr) x y True then True
      else isInSpecificAreas x y areas dpr)"

definition isInsideWindow :: "int \<Rightarrow> int \<Rightarrow> POINT \<Rightarrow> bool" where
  "isInsideWindow ww wh mouse \<longleftrightarrow>
     px mouse > 0 \<and> px mouse < ww \<and> py mouse > 0 \<and> py mouse < wh"

definition isTitlebar :: "int \<Rightarrow> int \<Rightarrow> POINT \<Rightarrow> int \<Rightarrow> WINDOW \<Rightarrow> qreal \<Rightarrow> bool" where
  "isTitlebar ww wh mouse tbh data dpr \<longleftrightarrow>
     isInsideWindow ww wh mouse \<and> py mouse < tbh \<and>
     \<not> isInSpecificAreas (px mouse) (py mouse) (ignoreAreas (windowData data)) dpr \<and>
     (if draggableAreas (windowData data) = [] then True
      else isInSpecificAreas (px mouse) (py mouse) (draggableAreas (windowData data)) dpr)"

text \<open>The part of the lambda after the maximized window has been answered.\<close>

definition edgeResult :: "bool \<Rightarrow> bool \<Rightarrow> bool \<Rightarrow> bool \<Rightarrow> bool \<Rightarrow> LRESULT" where
  "edgeResult isTop isBottom isLeft isRight isTitle =
     (if isTop then
        (if isLeft then HTTOPLEFT else if isRight then HTTOPRIGHT else HTTOP)
      else if isBottom then
        (if isLeft then HTBOTTOMLEFT else if isRight then HTBOTTOMRIGHT else HTBOTTOM)
      else if isLeft then HTLEFT
      else if isRight then HTRIGHT
      else if isTitle then HTCAPTION
      else HTCLIENT)"

text \<open>
  What the lambda reads before it decides: the client size, the pointer in client
  coordinates, the three metrics and the scale factor.
\<close>

record HitInputs =
  hi_ww :: int
  hi_wh :: int
  hi_mouse :: POINT
  hi_bw :: int
  hi_bh :: int
  hi_tbh :: int
  hi_dpr :: qreal

definition hitInputs :: "Env \<Rightarrow> World \<Rightarrow> HWND \<Rightarrow> int \<Rightarrow> HitInputs \<times> World" where
  "hitInputs env s hwnd lParam =
     (let clientRect = (case GetClientRect env hwnd of
                          Some r \<Rightarrow> r
                        | None \<Rightarrow> \<lparr>left = 0, top = 0, right = 0, bottom = 0\<rparr>);
          mouse = ScreenToClient env hwnd
                    \<lparr>px = GET_X_LPARAM lParam, py = GET_Y_LPARAM lParam\<rparr>;
          (bw, s1) = borderWidth env s hwnd;
          (bh, s2) = borderHeight env s1 hwnd;
          (tbh, s3) = titlebarHeight env s2 hwnd
      in (\<lparr>hi_ww = right clientRect, hi_wh = bottom clientRect, hi_mouse = mouse,
           hi_bw = bw, hi_bh = bh, hi_tbh = tbh, hi_dpr = getDprForWindow env hwnd\<rparr>, s3))"

definition classify :: "bool \<Rightarrow> HitInputs \<Rightarrow> WINDOW \<Rightarrow> LRESULT" where
  "classify maximized i data =
     (let ww = hi_ww i; wh = hi_wh i; mouse = hi_mouse i;
          bw = hi_bw i; bh = hi_bh i; tbh = hi_tbh i;
          inside = isInsideWindow ww wh mouse;
          isTitle = isTitlebar ww wh mouse tbh data (hi_dpr i)
      in if maximized then (if isTitle then HTCAPTION else HTCLIENT)
         else
           (let isTop = (inside \<and> py mouse < bh);
                isBottom = (inside \<and> py mouse > wh - bh);
                isLeft = (inside \<and> px mouse < bw);
                isRight = (inside \<and> px mouse > ww - bw)
            in edgeResult isTop isBottom isLeft isRight isTitle))"

definition getHTResult :: "Env \<Rightarrow> World \<Rightarrow> HWND \<Rightarrow> int \<Rightarrow> WINDOW \<Rightarrow> LRESULT \<times> World" where
  "getHTResult env s hwnd lParam data =
     (let (i, s') = hitInputs env s hwnd lParam
      in (classify (IsMaximized env hwnd) i data, s'))"

section \<open>The registered windows\<close>

definition install :: "World \<Rightarrow> World" where
  "install s = (if \<not> installed s then oscall InstallNativeEventFilter (s\<lparr>installed := True\<rparr>) else s)"

definition addFramelessWindow :: "Env \<Rightarrow> World \<Rightarrow> HWND \<Rightarrow> WINDOWDATA option \<Rightarrow> World" where
  "addFramelessWindow env s window data =
     (if window \<noteq> 0 \<and> window \<notin> set (m_framelessWindows s) then
        (let s1 = s\<lparr>m_framelessWindows := m_framelessWindows s @ [window]\<rparr>;
             s2 = (case data of Some d \<Rightarrow> createUserData env s1 window (Some d) | None \<Rightarrow> s1)
         in install s2)
      else s)"

definition removeFramelessWindow :: "World \<Rightarrow> HWND \<Rightarrow> World" where
  "removeFramelessWindow s window =
     (if window \<noteq> 0 \<and> window \<in> set (m_framelessWindows s) then
        updateWindow (s\<lparr>m_framelessWindows := removeAll window (m_framelessWindows s)\<rparr>) window
      else s)"

section \<open>One-time initialisation, composition and theme changes\<close>

text \<open>
  \<open>data\<close> in the source is the pointer read from the user-data slot of the message's
  window; the model names it by that window and reads or writes the slot.
  The debug lines at the end of \<open>init\<close> print the three metrics of \<open>data->hWnd\<close>;
  the calls stay in the model because each makes sure that window has user data.
\<close>

abbreviation (input) WS_OVERLAPPEDWINDOW :: nat where "WS_OVERLAPPEDWINDOW \<equiv> 0xCF0000"
abbreviation (input) WS_CLIPCHILDREN :: nat where "WS_CLIPCHILDREN \<equiv> 0x2000000"
abbreviation (input) WS_CLIPSIBLINGS :: nat where "WS_CLIPSIBLINGS \<equiv> 0x4000000"
abbreviation (input) WS_VISIBLE :: nat where "WS_VISIBLE \<equiv> 0x10000000"

abbreviation (input) ACCENT_ENABLE_TRANSPARENTGRADIENT :: nat where "ACCENT_ENABLE_TRANSPARENTGRADIENT \<equiv> 2"
abbreviation (input) ACCENT_ENABLE_BLURBEHIND :: nat where "ACCENT_ENABLE_BLURBEHIND \<equiv> 3"
abbreviation (input) ACCENT_ENABLE_ACRYLICBLURBEHIND :: nat where "ACCENT_ENABLE_ACRYLICBLURBEHIND \<equiv> 4"

text \<open>
  \<open>QOperatingSystemVersion\<close>: major, minor and micro version, \<open>-1\<close> for a segment
  that is left out; \<open>compare\<close> is the difference of the first segments that differ.
\<close>

type_synonym QOperatingSystemVersion = "int \<times> int \<times> int"

definition compare :: "QOperatingSystemVersion \<Rightarrow> QOperatingSystemVersion \<Rightarrow> int" where
  "compare v1 v2 =
     (case (v1, v2) of
        ((major1, minor1, micro1), (major2, minor2, micro2)) \<Rightarrow>
          if major1 = major2 then (if minor1 = minor2 then micro1 - micro2 else minor1 - minor2)
          else major1 - major2)"

abbreviation (input) Windows7 :: QOperatingSystemVersion where "Windows7 \<equiv> (6, 1, -1)"
abbreviation (input) Windows8 :: QOperatingSystemVersion where "Windows8 \<equiv> (6, 2, -1)"
abbreviation (input) Windows10 :: QOperatingSystemVersion where "Windows10 \<equiv> (10, -1, -1)"
abbreviation (input) Windows10_1709 :: QOperatingSystemVersion where
  "Windows10_1709 \<equiv> (10, 0, 16299)"

definition handleBlurForWindow :: "Env \<Rightarrow> World \<Rightarrow> HWND \<Rightarrow> World" where
  "handleBlurForWindow env s h =
     (case GWLP_USERDATA s h of
        None \<Rightarrow> s
      | Some data \<Rightarrow>
          (if compare (osVersion env) Windows7 < 0
              \<or> \<not> (dwmCompositionEnabled data \<and> blurEnabled (windowData data)) then s
           else if compare (osVersion env) Windows8 < 0 then
             oscall (DwmEnableBlurBehindWindow (hWnd data)) s
           else if m_SetWindowCompositionAttribute env then
             (let accentState =
                    (if compare (osVersion env) Windows10_1709 \<ge> 0
                       then ACCENT_ENABLE_ACRYLICBLURBEHIND
                     else if compare (osVersion env) Windows10 \<ge> 0
                       then ACCENT_ENABLE_BLURBEHIND
                     else ACCENT_ENABLE_TRANSPARENTGRADIENT)
              in oscall (SetWindowCompositionAttribute (hWnd data) accentState) s)
           else s))"

definition handleDwmCompositionChanged :: "Env \<Rightarrow> World \<Rightarrow> HWND \<Rightarrow> World" where
  "handleDwmCompositionChanged env s h =
     (case GWLP_USERDATA s h of
        None \<Rightarrow> s
      | Some data \<Rightarrow>
          (let enabled = DwmIsCompositionEnabled env;
               s1 = s\<lparr>GWLP_USERDATA := (GWLP_USERDATA s)(h \<mapsto> data\<lparr>dwmCompositionEnabled := enabled\<rparr>)\<rparr>;
               s2 = (if enabled then
                       oscall (DwmExtendFrameIntoClientArea (hWnd data))
                         (oscall (DwmSetWindowAttribute_NCRENDERING (hWnd data)) s1)
                     else s1);
               s3 = handleBlurForWindow env s2 h
           in updateWindow s3 (hWnd data)))"

definition handleThemeChanged :: "Env \<Rightarrow> World \<Rightarrow> HWND \<Rightarrow> World" where
  "handleThemeChanged env s h =
     (case GWLP_USERDATA s h of
        None \<Rightarrow> s
      | Some data \<Rightarrow>
          s\<lparr>GWLP_USERDATA := (GWLP_USERDATA s)(h \<mapsto> data\<lparr>themeEnabled := IsThemeActive env\<rparr>)\<rparr>)"

definition init :: "Env \<Rightarrow> World \<Rightarrow> HWND \<Rightarrow> World" where
  "init env s h =
     (case GWLP_USERDATA s h of
        None \<Rightarrow> s
      | Some data \<Rightarrow>
          (let s1 = s\<lparr>GWLP_USERDATA := (GWLP_USERDATA s)(h \<mapsto> data\<lparr>inited := True\<rparr>)\<rparr>;
               s2 = setStyle (hWnd data)
                      (WS_OVERLAPPEDWINDOW OR WS_CLIPCHILDREN OR WS_CLIPSIBLINGS) s1;
               s3 = oscall (SetWindowLongPtr_EXSTYLE (hWnd data)) s2;
               s4 = oscall (SetLayeredWindowAttributes (hWnd data)) s3;
               s5 = handleDwmCompositionChanged env s4 h;
               s6 = handleThemeChanged env s5 h;
               (bw, s7) = borderWidth env s6 (hWnd data);
               (bh, s8) = borderHeight env s7 (hWnd data);
               (tbh, s9) = titlebarHeight env s8 (hWnd data)
           in s9))"

section \<open>Messages\<close>

text \<open>
  A message carries the window, the message number and the two parameters. For the
  messages whose \<open>lParam\<close> is a pointer the record also holds what it points to:
  \<open>rgrc0\<close> is the first rectangle of the frame query (\<open>rgrc[0]\<close> of
  \<open>NCCALCSIZE_PARAMS\<close>), \<open>mmi\<close> the \<open>MINMAXINFO\<close> of the size-constraint query and
  \<open>lpCreateParams\<close> the object the creation parameters point to, read as a
  \<open>WINDOW\<close>. The filter writes through the pointer, so it returns the message too.
\<close>

record MINMAXINFO =
  ptMaxSize :: POINT
  ptMaxPosition :: POINT
  ptMinTrackSize :: POINT
  ptMaxTrackSize :: POINT

record MSG =
  hwnd :: HWND
  message :: nat
  wParam :: nat
  lParam :: int
  rgrc0 :: RECT
  mmi :: MINMAXINFO
  lpCreateParams :: "WINDOW option"

abbreviation (input) WM_SETTEXT :: nat where "WM_SETTEXT \<equiv> 0x000C"
abbreviation (input) WM_GETMINMAXINFO :: nat where "WM_GETMINMAXINFO \<equiv> 0x0024"
abbreviation (input) WM_WINDOWPOSCHANGED :: nat where "WM_WINDOWPOSCHANGED \<equiv> 0x0047"
abbreviation (input) WM_SETICON :: nat where "WM_SETICON \<equiv> 0x0080"
abbreviation (input) WM_NCCREATE :: nat where "WM_NCCREATE \<equiv> 0x0081"
abbreviation (input) WM_NCCALCSIZE :: nat where "WM_NCCALCSIZE \<equiv> 0x0083"
abbreviation (input) WM_NCHITTEST :: nat where "WM_NCHITTEST \<equiv> 0x0084"
abbreviation (input) WM_NCPAINT :: nat where "WM_NCPAINT \<equiv> 0x0085"
abbreviation (input) WM_NCACTIVATE :: nat where "WM_NCACTIVATE \<equiv> 0x0086"
abbreviation (input) WM_NCUAHDRAWCAPTION :: nat where "WM_NCUAHDRAWCAPTION \<equiv> 0x00AE"
abbreviation (input) WM_NCUAHDRAWFRAME :: nat where "WM_NCUAHDRAWFRAME \<equiv> 0x00AF"
abbreviation (input) WM_DPICHANGED :: nat where "WM_DPICHANGED \<equiv> 0x02E0"
abbreviation (input) WM_THEMECHANGED :: nat where "WM_THEMECHANGED \<equiv> 0x031A"
abbreviation (input) WM_DWMCOMPOSITIONCHANGED :: nat where "WM_DWMCOMPOSITIONCHANGED \<equiv> 0x031E"

abbreviation (input) ABS_AUTOHIDE :: UINT where "ABS_AUTOHIDE \<equiv> 1"
abbreviation (input) ABE_LEFT :: int where "ABE_LEFT \<equiv> 0"
abbreviation (input) ABE_TOP :: int where "ABE_TOP \<equiv> 1"
abbreviation (input) ABE_RIGHT :: int where "ABE_RIGHT \<equiv> 2"
abbreviation (input) ABE_BOTTOM :: int where "ABE_BOTTOM \<equiv> 3"

definition zeroRECT :: RECT where
  "zeroRECT = \<lparr>left = 0, top = 0, right = 0, bottom = 0\<rparr>"

definition getMonitorInfo :: "Env \<Rightarrow> HMONITOR \<Rightarrow> MONITORINFO" where
  "getMonitorInfo env monitor =
     (case GetMonitorInfoW env monitor of
        Some info \<Rightarrow> info
      | None \<Rightarrow> \<lparr>rcMonitor = zeroRECT, rcWork = zeroRECT\<rparr>)"

section \<open>The frame query (WM_NCCALCSIZE)\<close>

text \<open>
  The edge of the task bar, as the code finds it once the task bar's state has the
  auto-hide bit: \<open>-1\<close> unless the task bar window exists and sits on the window's
  monitor; the \<open>APPBARDATA\<close> was zeroed, so a failed position query leaves edge 0.
\<close>

definition taskbarEdge :: "Env \<Rightarrow> HMONITOR \<Rightarrow> int" where
  "taskbarEdge env monitor =
     (let abd_hWnd = FindWindow_Shell_TrayWnd env
      in if abd_hWnd \<noteq> 0 then
           (let taskbarMonitor = MonitorFromWindow env abd_hWnd
            in if taskbarMonitor \<noteq> 0 \<and> taskbarMonitor = monitor then
                 (case ABM_GETTASKBARPOS env of Some uEdge \<Rightarrow> sint uEdge | None \<Rightarrow> 0)
               else -1)
         else -1)"

definition trimEdge :: "int \<Rightarrow> RECT \<Rightarrow> RECT" where
  "trimEdge edge r =
     (if edge = ABE_BOTTOM then r\<lparr>bottom := bottom r - 1\<rparr>
      else if edge = ABE_LEFT then r\<lparr>left := left r + 1\<rparr>
      else if edge = ABE_TOP then r\<lparr>top := top r + 1\<rparr>
      else if edge = ABE_RIGHT then r\<lparr>right := right r - 1\<rparr>
      else r)"

text \<open>
  \<open>static_cast<BOOL>(msg->wParam)\<close>: \<open>BOOL\<close> is a 32-bit \<open>int\<close>, so the cast keeps
  the low 32 bits of the parameter, read as a signed number.
\<close>

definition static_cast_BOOL :: "nat \<Rightarrow> int" where
  "static_cast_BOOL w = sint (word_of_nat w :: 32 word)"

definition ncCalcSize :: "Env \<Rightarrow> MSG \<Rightarrow> MSG" where
  "ncCalcSize env msg =
     (if static_cast_BOOL (wParam msg) \<noteq> 0 then
        (if IsMaximized env (hwnd msg) then
           (let monitor = MonitorFromWindow env (hwnd msg)
            in if monitor \<noteq> 0 then
                 (let monitorInfo = getMonitorInfo env monitor;
                      r = rcWork monitorInfo
                  in if r = rcMonitor monitorInfo then
                       (let taskbarState = ABM_GETSTATE env
                        in if taskbarState AND ABS_AUTOHIDE \<noteq> 0 then
                             msg\<lparr>rgrc0 := trimEdge (taskbarEdge env monitor) r\<rparr>
                           else msg\<lparr>rgrc0 := r\<rparr>)
                     else msg\<lparr>rgrc0 := r\<rparr>)
               else msg)
         else msg)
      else msg)"

section \<open>The size-constraint query (WM_GETMINMAXINFO)\<close>

definition getMinMaxInfo :: "Env \<Rightarrow> WINDOW \<Rightarrow> MSG \<Rightarrow> HMONITOR \<Rightarrow> MSG" where
  "getMinMaxInfo env data msg monitor =
     (let monitorInfo = getMonitorInfo env monitor;
          rcWorkArea = rcWork monitorInfo;
          rcMonitorArea = rcMonitor monitorInfo;
          maxPosition =
            (if compare (osVersion env) Windows7 > 0 then
               \<lparr>px = \<bar>left rcWorkArea - left rcMonitorArea\<bar>,
                py = \<bar>top rcWorkArea - top rcMonitorArea\<bar>\<rparr>
             else \<lparr>px = left rcMonitorArea, py = top rcMonitorArea\<rparr>);
          maxSize = \<lparr>px = \<bar>right rcWorkArea - left rcWorkArea\<bar>,
                     py = \<bar>bottom rcWorkArea - top rcWorkArea\<bar>\<rparr>;
          m1 = (mmi msg)\<lparr>ptMaxPosition := maxPosition, ptMaxSize := maxSize,
                          ptMaxTrackSize := maxSize\<rparr>;
          m2 = (if \<not> isEmpty_size (minimumSize (windowData data)) then
                  m1\<lparr>ptMinTrackSize :=
                       \<lparr>px = toInt (dbl (getDprForWindow env (hwnd msg)
                                           * of_int (wd (minimumSize (windowData data))))),
                        py = toInt (dbl (getDprForWindow env (hwnd msg)
                                           * of_int (ht (minimumSize (windowData data)))))\<rparr>\<rparr>
                else m1)
      in msg\<lparr>mmi := m2\<rparr>)"

section \<open>The native event filter\<close>

text \<open>
  The filter answers with its boolean (\<open>handled\<close>), the value it stored in
  \<open>*result\<close> (\<open>None\<close> when it stored nothing), the message with what it wrote
  through \<open>lParam\<close>, and the new state. Where the filter reads the user data of the
  message's window, \<open>createUserData\<close> has just filled the slot, so the look-up finds
  it (lemmas \<open>createUserData_slot\<close> and \<open>prepared_slot\<close> below); the \<open>None\<close> branches
  of those look-ups are never taken.
\<close>

record Answer =
  handled :: bool
  result :: "LRESULT option"
  msg_out :: MSG
  world :: World

definition pass :: "World \<Rightarrow> MSG \<Rightarrow> Answer" where
  "pass s msg = \<lparr>handled = False, result = None, msg_out = msg, world = s\<rparr>"

definition reply :: "LRESULT \<Rightarrow> World \<Rightarrow> MSG \<Rightarrow> Answer" where
  "reply r s msg = \<lparr>handled = True, result = Some r, msg_out = msg, world = s\<rparr>"

text \<open>The loop over \<open>QGuiApplication::topLevelWindows()\<close>.\<close>

fun isTopLevel :: "QWindow list \<Rightarrow> HWND \<Rightarrow> bool" where
  "isTopLevel [] h = False"
| "isTopLevel (window # windows) h =
     (if has_handle window \<and> h = winId window then True else isTopLevel windows h)"

text \<open>The two tests at the head of the filter: does the message go on to be handled?\<close>

definition intercepted :: "Env \<Rightarrow> World \<Rightarrow> MSG \<Rightarrow> bool" where
  "intercepted env s msg \<longleftrightarrow>
     (if hwnd msg = 0 then False
      else if m_framelessWindows s = [] then isTopLevel (topLevelWindows env) (hwnd msg)
      else hwnd msg \<in> set (m_framelessWindows s))"

text \<open>
  The \<open>switch\<close> on the message, entered with the window's user data in place.
  \<open>oldStyle & ~WS_VISIBLE\<close> clears bit 28 of the style.
\<close>

definition dispatch :: "Env \<Rightarrow> World \<Rightarrow> WINDOW \<Rightarrow> MSG \<Rightarrow> Answer" where
  "dispatch env s data msg =
     (let m = message msg; h = hwnd msg in
      if m = WM_NCCREATE then
        pass (s\<lparr>GWLP_USERDATA := (GWLP_USERDATA s)(h := lpCreateParams msg)\<rparr>) msg
      else if m = WM_NCCALCSIZE then reply 0 s (ncCalcSize env msg)
      else if m = WM_DWMCOMPOSITIONCHANGED then
        reply 0 (handleDwmCompositionChanged env s h) msg
      else if m = WM_NCUAHDRAWCAPTION \<or> m = WM_NCUAHDRAWFRAME then reply 0 s msg
      else if m = WM_NCPAINT then
        (if dwmCompositionEnabled data then pass s msg else reply 0 s msg)
      else if m = WM_NCACTIVATE then
        reply (DefWindowProcW env h m (wParam msg) (-1)) (oscall (DefWindowProc h m) s) msg
      else if m = WM_NCHITTEST then
        (let (r, s') = getHTResult env s h (lParam msg) data in reply r s' msg)
      else if m = WM_GETMINMAXINFO then
        (let monitor = MonitorFromWindow env h
         in if monitor \<noteq> 0 then reply 0 s (getMinMaxInfo env data msg monitor)
            else pass s msg)
      else if m = WM_SETICON \<or> m = WM_SETTEXT then
        (if \<not> dwmCompositionEnabled data \<and> \<not> themeEnabled data then
           (let oldStyle = GWL_STYLE s h;
                s1 = setStyle h (unset_bit 28 oldStyle) s;
                s2 = oscall (DefWindowProc h m) s1;
                s3 = setStyle h oldStyle s2
            in reply (DefWindowProcW env h m (wParam msg) (lParam msg)) s3 msg)
         else pass s msg)
      else if m = WM_THEMECHANGED then pass (handleThemeChanged env s h) msg
      else if m = WM_WINDOWPOSCHANGED then pass (oscall (InvalidateRect h) s) msg
      else if m = WM_DPICHANGED then pass (updateWindow s h) msg
      else pass s msg)"

text \<open>
  Lines 246 to 253: the user data is created if the window has none, and initialised if
  it is not yet. The result is the state in which the \<open>switch\<close> is entered.
\<close>

definition prepared :: "Env \<Rightarrow> World \<Rightarrow> HWND \<Rightarrow> World" where
  "prepared env s h =
     (let s1 = createUserData env s h None
      in case GWLP_USERDATA s1 h of
           None \<Rightarrow> s1
         | Some data \<Rightarrow> (if \<not> inited data then init env s1 h else s1))"

definition nativeEventFilter :: "Env \<Rightarrow> World \<Rightarrow> MSG \<Rightarrow> Answer" where
  "nativeEventFilter env s msg =
     (if hwnd msg = 0 then pass s msg
      else if (if m_framelessWindows s = []
               then \<not> isTopLevel (topLevelWindows env) (hwnd msg)
               else hwnd msg \<notin> set (m_framelessWindows s)) then pass s msg
      else
        (let s2 = prepared env s (hwnd msg)
         in case GWLP_USERDATA s2 (hwnd msg) of
              None \<Rightarrow> pass s2 msg
            | Some data \<Rightarrow> dispatch env s2 data msg))"

section \<open>The toolkit-event helper (framelesshelper_qt.cpp)\<close>

text \<open>
  \<open>g_qtHelper\<close> is a hash from window id to the data of the window. The mutex is not
  modelled: a call runs alone. \<open>UserSettings\<close> is a type parameter, and of
  \<open>SystemParameters\<close> the model keeps what \<open>addWindow\<close> asks of it. The calls
  into the host (setting the window flags, installing the event filter) are logged;
  \<open>next_object\<close> is the address the next \<open>new\<close> returns. \<open>Q_ASSERT\<close> is the release
  build's: it does nothing.
\<close>

type_synonym WId = nat

record SystemParameters =
  isValid_params :: bool
  getWindowId :: WId
  getWindowHandle :: nat
  getWindowFlags :: nat

record 'u QtHelperData =
  settings :: 'u
  params :: SystemParameters
  eventFilter :: nat

datatype hostcall =
  New_FramelessHelperQt nat nat
  | SetWindowFlags WId nat
  | InstallEventFilter nat nat
  | SetSystemTitleBarVisible WId bool

record 'u QtHelper =
  qt_data :: "WId \<rightharpoonup> 'u QtHelperData"
  next_object :: nat
  host :: "hostcall list"

abbreviation (input) FramelessWindowHint :: nat where "FramelessWindowHint \<equiv> 0x800"

definition hostcall :: "hostcall \<Rightarrow> 'u QtHelper \<Rightarrow> 'u QtHelper" where
  "hostcall c s = s\<lparr>host := host s @ [c]\<rparr>"

definition addWindow :: "bool \<Rightarrow> 'u QtHelper \<Rightarrow> 'u \<Rightarrow> SystemParameters \<Rightarrow> 'u QtHelper" where
  "addWindow Q_OS_MACOS s settings0 params0 =
     (if \<not> isValid_params params0 then s
      else
        (let windowId = getWindowId params0
         in if windowId \<in> dom (qt_data s) then s
            else
              (let window = getWindowHandle params0;
                   filter = next_object s;
                   data = \<lparr>settings = settings0, params = params0, eventFilter = filter\<rparr>;
                   s1 = hostcall (New_FramelessHelperQt filter window)
                          (s\<lparr>next_object := filter + 1\<rparr>);
                   s2 = s1\<lparr>qt_data := (qt_data s1)(windowId \<mapsto> data)\<rparr>;
                   s3 = (if \<not> Q_OS_MACOS then
                           hostcall (SetWindowFlags windowId
                                       (getWindowFlags params0 OR FramelessWindowHint)) s2
                         else s2);
                   s4 = hostcall (InstallEventFilter window filter) s3
               in if Q_OS_MACOS then hostcall (SetSystemTitleBarVisible windowId False) s4
                  else s4)))"

section \<open>The manager's list of windows (framelessmanager.cpp)\<close>

text \<open>
  \<open>g_helper()->windowIds\<close> is private to the manager's file. The functions the
  manager calls in the helper modules (\<open>FramelessHelperQt::appliedWinId\<close>,
  \<open>FramelessHelperQt::removeWindow\<close>, \<open>FramelessHelperWin::removeWindow\<close>,
  \<open>Utils::uninstallSystemMenuHook\<close>) are not part of the sources: they are parameters,
  acting on the helper modules' own state \<open>'h\<close>. A \<open>QWindow *\<close> is an optional window,
  \<open>None\<close> the null pointer. \<open>Q_ASSERT(window)\<close> does nothing in a release build
  (\<open>QT_NO_DEBUG\<close>) and stops the program in a debug build when the window is null:
  \<open>removeWindow\<close> answers \<open>None\<close> then, and the new state otherwise.
\<close>

record 'h Helpers =
  appliedWinId :: "'h \<Rightarrow> QWindow \<Rightarrow> WId"
  helperQt_removeWindow :: "QWindow \<Rightarrow> 'h \<Rightarrow> 'h"
  helperWin_removeWindow :: "WId \<Rightarrow> 'h \<Rightarrow> 'h"
  uninstallSystemMenuHook :: "WId \<Rightarrow> 'h \<Rightarrow> 'h"
  usePureQtImplementation :: bool
  Q_OS_WINDOWS :: bool
  QT_NO_DEBUG :: bool

record 'h Manager =
  windowIds :: "WId list"
  helpers :: 'h

definition removeWindow_found :: "'h Helpers \<Rightarrow> 'h Manager \<Rightarrow> QWindow \<Rightarrow> WId \<Rightarrow> 'h Manager" where
  "removeWindow_found P m window windowId =
     (let m1 = m\<lparr>windowIds := removeAll windowId (windowIds m)\<rparr>;
          pureQt = usePureQtImplementation P;
          m2 = (if pureQt then m1\<lparr>helpers := helperQt_removeWindow P window (helpers m1)\<rparr>
                else m1)
      in if Q_OS_WINDOWS P then
           (let m3 = (if \<not> pureQt
                      then m2\<lparr>helpers := helperWin_removeWindow P windowId (helpers m2)\<rparr>
                      else m2)
            in m3\<lparr>helpers := uninstallSystemMenuHook P windowId (helpers m3)\<rparr>)
         else m2)"

definition removeWindow ::
    "'h Helpers \<Rightarrow> 'h Manager \<Rightarrow> QWindow option \<Rightarrow> 'h Manager option" where
  "removeWindow P m window0 =
     (case window0 of
        None \<Rightarrow> (if QT_NO_DEBUG P then Some m else None)
      | Some window \<Rightarrow>
          (let windowId = winId window
           in if windowId \<notin> set (windowIds m) then
                (let windowId' = appliedWinId P (helpers m) window
                 in if windowId' = 0 then Some m
                    else Some (removeWindow_found P m window windowId'))
              else Some (removeWindow_found P m window windowId)))"

section \<open>The specification's wording, to compare the code with\<close>

text \<open>
  A point is inside some rectangle of a sequence, once the rectangle is scaled. Written
  out: the rectangle has a left edge, a top edge, a width and a height, of which the last
  two are positive; each of the four is multiplied by the scale factor, as doubles, and
  cut to an integer; the point lies strictly between the left column and the last
  column and strictly between the top row and the last row of the scaled rectangle.
\<close>

definition insideScaled :: "int \<Rightarrow> int \<Rightarrow> QRect \<Rightarrow> qreal \<Rightarrow> bool" where
  "insideScaled x y area dpr \<longleftrightarrow>
     (let l = x1 area; t = y1 area; w = x2 area - x1 area + 1; h = y2 area - y1 area + 1;
          sl = toInt (dbl (of_int l * dpr)); st = toInt (dbl (of_int t * dpr));
          sw = toInt (dbl (of_int w * dpr)); sh = toInt (dbl (of_int h * dpr))
      in w \<ge> 1 \<and> h \<ge> 1 \<and> sl < x \<and> x < sl + sw - 1 \<and> st < y \<and> y < st + sh - 1)"

definition insideSomeArea :: "int \<Rightarrow> int \<Rightarrow> QRect list \<Rightarrow> qreal \<Rightarrow> bool" where
  "insideSomeArea x y areas dpr \<longleftrightarrow> (\<exists>area \<in> set areas. insideScaled x y area dpr)"

text \<open>
  The order of evaluation the specification gives for a window that is not maximized:
  the four corners, the four edges, the title bar, the client area.
\<close>

definition spec_edgeOrder :: "bool \<Rightarrow> bool \<Rightarrow> bool \<Rightarrow> bool \<Rightarrow> bool \<Rightarrow> LRESULT" where
  "spec_edgeOrder isTop isBottom isLeft isRight isTitle =
     (if isTop \<and> isLeft then HTTOPLEFT
      else if isTop \<and> isRight then HTTOPRIGHT
      else if isBottom \<and> isLeft then HTBOTTOMLEFT
      else if isBottom \<and> isRight then HTBOTTOMRIGHT
      else if isTop then HTTOP
      else if isBottom then HTBOTTOM
      else if isLeft then HTLEFT
      else if isRight then HTRIGHT
      else if isTitle then HTCAPTION
      else HTCLIENT)"

text \<open>
  The scale factor of a DPI value under a rounding policy: the quotient by the baseline,
  passed through (as the double nearest to it), rounded down, rounded up, or rounded to
  the nearest integer (also when no policy is set).
\<close>

definition spec_scaleFactor :: "HighDpiScaleFactorRoundingPolicy option \<Rightarrow> UINT \<Rightarrow> qreal" where
  "spec_scaleFactor policy dpi =
     (let q = real (unat dpi) / 96
      in case policy of
           Some PassThrough \<Rightarrow> dbl q
         | Some Floor \<Rightarrow> of_int \<lfloor>q\<rfloor>
         | Some Ceil \<Rightarrow> of_int \<lceil>q\<rceil>
         | _ \<Rightarrow> of_int (round q))"

text \<open>
  The tiers of the DPI resolution: each is the answer of one API, or \<open>None\<close> when the
  API is not available. \<open>firstAvailable\<close> takes the first tier that answers, and the
  baseline when none does.
\<close>

fun firstAvailable :: "UINT option list \<Rightarrow> UINT \<Rightarrow> UINT" where
  "firstAvailable [] baseline = baseline"
| "firstAvailable (Some dpi # tiers) baseline = dpi"
| "firstAvailable (None # tiers) baseline = firstAvailable tiers baseline"

definition tier_window :: "Env \<Rightarrow> HWND \<Rightarrow> UINT option" where
  "tier_window env h = map_option (\<lambda>f. f h) (m_GetDpiForWindow env)"

definition tier_process :: "Env \<Rightarrow> UINT option" where
  "tier_process env =
     map_option (\<lambda>f. f (GetCurrentProcess env)) (m_GetSystemDpiForProcess env)"

definition tier_system :: "Env \<Rightarrow> UINT option" where
  "tier_system env = m_GetDpiForSystem env"

definition tier_monitor :: "Env \<Rightarrow> HWND \<Rightarrow> UINT option" where
  "tier_monitor env h =
     map_option (\<lambda>g. fst (g (MonitorFromWindow env h) (96, 96))) (m_GetDpiForMonitor env)"

definition tier_direct2d :: "Env \<Rightarrow> UINT option" where
  "tier_direct2d env =
     map_option (\<lambda>(dpiX, dpiY). float_to_UINT dpiX) (D2D1_GetDesktopDpi env)"

definition tier_deviceContext :: "Env \<Rightarrow> UINT option" where
  "tier_deviceContext env =
     map_option (\<lambda>(dpiX, dpiY). int_to_UINT (if dpiX = dpiY then dpiY else dpiX))
       (GetDC_LOGPIXELS env)"

text \<open>
  The order as the specification has it: one chain for every handle, the window query
  first, then the process, the system and the monitor queries, then the screen fallbacks.
\<close>

definition spec_dpiOrder :: "Env \<Rightarrow> HWND \<Rightarrow> UINT" where
  "spec_dpiOrder env h =
     firstAvailable [tier_window env h, tier_process env, tier_system env, tier_monitor env h,
                     tier_direct2d env, tier_deviceContext env] 96"

section \<open>A concrete desktop\<close>

text \<open>
  A window of client size 800 by 600 with border 8 and title bar 32 at 96 DPI, one
  ignored rectangle in its title strip; a 1920 by 1080 monitor whose work area is the
  whole monitor, the task bar hiding itself at the bottom edge.
\<close>

definition demoWindow :: WINDOW where
  "demoWindow = \<lparr>hWnd = 2, dwmCompositionEnabled = True, themeEnabled = True, inited = True,
     windowData = \<lparr>blurEnabled = False, wd_borderWidth = 8, wd_borderHeight = 8,
       wd_titlebarHeight = 32, ignoreAreas = [mkQRect 350 0 100 32], draggableAreas = [],
       minimumSize = \<lparr>wd = 0, ht = 0\<rparr>\<rparr>\<rparr>"

definition demoMonitor :: RECT where
  "demoMonitor = \<lparr>left = 0, top = 0, right = 1920, bottom = 1080\<rparr>"

definition demoEnv :: Env where
  "demoEnv = \<lparr>
     m_GetSystemDpiForProcess = Some (\<lambda>_. 144),
     m_GetDpiForWindow = Some (\<lambda>h. if h = 0 then 0 else 96),
     m_GetDpiForSystem = Some 144,
     m_GetSystemMetricsForDpi = Some (\<lambda>index dpi. 4),
     m_GetDpiForMonitor = Some (\<lambda>monitor d. (120, 120)),
     m_SetWindowCompositionAttribute = True,
     GetCurrentProcess = 1,
     D2D1_GetDesktopDpi = Some (96, 96),
     GetDC_LOGPIXELS = Some (96, 96),
     highDpiScaleFactorRoundingPolicy = Some Round,
     GetSystemMetrics = (\<lambda>index. 4),
     MonitorFromWindow = (\<lambda>h. 1),
     GetMonitorInfoW = (\<lambda>monitor. Some \<lparr>rcMonitor = demoMonitor, rcWork = demoMonitor\<rparr>),
     IsMaximized = (\<lambda>h. False),
     GetClientRect = (\<lambda>h. Some \<lparr>left = 0, top = 0, right = 800, bottom = 600\<rparr>),
     ScreenToClient = (\<lambda>h p. p),
     ABM_GETSTATE = 1,
     FindWindow_Shell_TrayWnd = 9,
     ABM_GETTASKBARPOS = Some 3,
     DwmIsCompositionEnabled = True,
     IsThemeActive = True,
     osVersion = (10, 0, 19045),
     topLevelWindows = [\<lparr>has_handle = True, winId = 2\<rparr>],
     DefWindowProcW = (\<lambda>h m w l. 0),
     new_WINDOW = demoWindow\<lparr>hWnd := 0, inited := False\<rparr>\<rparr>"

definition demoMaximized :: Env where
  "demoMaximized = demoEnv\<lparr>IsMaximized := (\<lambda>h. True)\<rparr>"

text \<open>The same desktop at 192 DPI, the window maximized: every length is doubled.\<close>

definition demoHighDpi :: Env where
  "demoHighDpi = demoMaximized\<lparr>m_GetDpiForWindow := Some (\<lambda>h. 192)\<rparr>"

definition demoWorld :: World where
  "demoWorld = \<lparr>m_framelessWindows = [2], installed = True,
     GWLP_USERDATA = [2 \<mapsto> demoWindow], GWL_STYLE = (\<lambda>h. 0), calls = []\<rparr>"


text \<open>The pointer at client position \<open>(x, y)\<close> as a message parameter.\<close>

definition MAKELPARAM :: "int \<Rightarrow> int \<Rightarrow> int" where
  "MAKELPARAM x y = y * 65536 + x"

definition demoMsg :: "nat \<Rightarrow> nat \<Rightarrow> MSG" where
  "demoMsg m w = \<lparr>hwnd = 2, message = m, wParam = w, lParam = 0,
     rgrc0 = \<lparr>left = -8, top = -8, right = 1928, bottom = 1088\<rparr>,
     mmi = \<lparr>ptMaxSize = \<lparr>px = 0, py = 0\<rparr>, ptMaxPosition = \<lparr>px = 0, py = 0\<rparr>,
            ptMinTrackSize = \<lparr>px = 0, py = 0\<rparr>, ptMaxTrackSize = \<lparr>px = 0, py = 0\<rparr>\<rparr>,
     lpCreateParams = None\<rparr>"

text \<open>
  A toolkit-helper table with nothing in it and the parameters of a window with id 7;
  a manager that holds window 7, whose helper modules recall id 7 for any window.
\<close>

definition demoQt :: "nat QtHelper" where
  "demoQt = \<lparr>qt_data = Map.empty, next_object = 100, host = []\<rparr>"

definition demoParams :: SystemParameters where
  "demoParams = \<lparr>isValid_params = True, getWindowId = 7, getWindowHandle = 70,
                  getWindowFlags = 1\<rparr>"

definition demoHelpers :: "unit Helpers" where
  "demoHelpers = \<lparr>appliedWinId = (\<lambda>h w. 7), helperQt_removeWindow = (\<lambda>w h. h),
     helperWin_removeWindow = (\<lambda>i h. h), uninstallSystemMenuHook = (\<lambda>i h. h),
     usePureQtImplementation = True, Q_OS_WINDOWS = False, QT_NO_DEBUG = True\<rparr>"

definition demoManager :: "unit Manager" where
  "demoManager = \<lparr>windowIds = [7], helpers = ()\<rparr>"

section \<open>Facts about double arithmetic\<close>

lemma rne_of_int: "rne (of_int k) = k"
  by (simp add: rne_def)

lemma rne_err: "\<bar>of_int (rne x) - x\<bar> \<le> 1/2"
proof -
  have "of_int \<lfloor>x\<rfloor> \<le> x" "x < of_int \<lfloor>x\<rfloor> + 1" by linarith+
  then show ?thesis by (auto simp add: rne_def Let_def)
qed

lemma rne_nonneg: "0 \<le> x \<Longrightarrow> 0 \<le> rne x"
  by (auto simp add: rne_def Let_def)

lemma dbl_nonneg: "0 \<le> r \<Longrightarrow> 0 \<le> dbl r"
  by (simp add: dbl_def rne_nonneg)

lemma expo_le: "r \<noteq> 0 \<Longrightarrow> 2 powr of_int (expo r) \<le> \<bar>r\<bar>"
proof -
  assume "r \<noteq> 0"
  then have p: "0 < \<bar>r\<bar>" by simp
  have "of_int (expo r) \<le> log 2 \<bar>r\<bar>" by (simp add: expo_def)
  then have "2 powr of_int (expo r) \<le> 2 powr log 2 \<bar>r\<bar>" by simp
  with p show ?thesis by simp
qed

lemma dbl_err: "\<bar>dbl r - r\<bar> \<le> \<bar>r\<bar> / 2 ^ 53"
proof (cases "r = 0")
  case True
  then show ?thesis by (simp add: dbl_def)
next
  case False
  define u :: real where "u = 2 powr (of_int (expo r) - 52)"
  have u: "0 < u" by (simp add: u_def)
  have "dbl r - r = (of_int (rne (r / u)) - r / u) * u"
    using False u by (simp add: dbl_def u_def algebra_simps)
  then have "\<bar>dbl r - r\<bar> = \<bar>of_int (rne (r / u)) - r / u\<bar> * u"
    using u by (simp add: abs_mult)
  also have "\<dots> \<le> 1/2 * u"
    using rne_err [of "r / u"] u by (simp add: mult_right_mono)
  also have "u = 2 powr of_int (expo r) / 2 ^ 52"
    by (simp add: u_def powr_diff)
  also have "1/2 * (2 powr of_int (expo r) / 2 ^ 52) \<le> 1/2 * (\<bar>r\<bar> / 2 ^ 52)"
    using expo_le [OF False] by (simp add: divide_right_mono)
  finally show ?thesis by simp
qed

lemma dbl_exact:
  assumes "r \<noteq> 0" and "r / 2 powr (of_int (expo r) - 52) = of_int z"
  shows "dbl r = r"
proof -
  have "dbl r = of_int z * 2 powr (of_int (expo r) - 52)"
    using assms by (simp add: dbl_def rne_of_int)
  also have "\<dots> = r" using assms(2) [symmetric] by simp
  finally show ?thesis .
qed

lemma dbl_dyadic:
  assumes "\<bar>k\<bar> < 2 ^ 53"
  shows "dbl (of_int k / 2 ^ m) = of_int k / 2 ^ m"
proof (cases "k = 0")
  case True
  then show ?thesis by (simp add: dbl_def)
next
  case False
  define r :: real where "r = of_int k / 2 ^ m"
  have r0: "r \<noteq> 0" using False by (simp add: r_def)
  have ak: "0 < \<bar>real_of_int k\<bar>" using False by simp
  have "\<bar>r\<bar> = \<bar>of_int k\<bar> / 2 ^ m" by (simp add: r_def)
  then have lg: "log 2 \<bar>r\<bar> = log 2 \<bar>of_int k\<bar> - of_nat m"
    using ak by (simp add: log_divide log_nat_power)
  have "\<bar>real_of_int k\<bar> < 2 ^ 53" using assms by (metis of_int_abs of_int_less_numeral_power_cancel_iff)
  then have "log 2 \<bar>real_of_int k\<bar> < 53"
    using ak by (simp add: log_less_iff powr_realpow[symmetric])
  with lg have "log 2 \<bar>r\<bar> < 53 - real m" by simp
  then have e: "expo r \<le> 52 - int m"
    unfolding expo_def by linarith
  define j where "j = nat (52 - int m - expo r)"
  have j: "int j = 52 - int m - expo r" using e by (simp add: j_def)
  have "r / 2 powr (of_int (expo r) - 52) = of_int k * (2 powr (52 - of_int (expo r)) / 2 ^ m)"
    by (simp add: r_def powr_diff field_simps)
  also have "2 powr (52 - of_int (expo r)) / 2 ^ m = 2 powr (52 - of_int (expo r) - real m)"
    by (simp add: powr_diff powr_realpow)
  also have "52 - real_of_int (expo r) - real m = real j"
    using j by linarith
  also have "2 powr real j = 2 ^ j" by (simp add: powr_realpow)
  finally have "r / 2 powr (of_int (expo r) - 52) = of_int (k * 2 ^ j)" by simp
  from dbl_exact [OF r0 this] show ?thesis by (simp add: r_def)
qed

lemma dbl_of_int: "\<bar>k\<bar> < 2 ^ 53 \<Longrightarrow> dbl (of_int k) = of_int k"
  using dbl_dyadic [of k 0] by simp

lemma dbl_half: "\<bar>k\<bar> < 2 ^ 53 \<Longrightarrow> dbl (of_int k / 2) = of_int k / 2"
  using dbl_dyadic [of k 1] by simp

lemma dbl_numeral: "(numeral n :: int) < 2 ^ 53 \<Longrightarrow> dbl (numeral n) = numeral n"
  using dbl_of_int [of "numeral n"] by simp

lemma dbl_numeral_half:
  "(numeral n :: int) < 2 ^ 53 \<Longrightarrow> dbl (numeral n / 2) = numeral n / 2"
  using dbl_half [of "numeral n"] by simp

lemma dbl_0: "dbl 0 = 0" by (simp add: dbl_def)
lemma dbl_1: "dbl 1 = 1" using dbl_of_int [of 1] by simp

lemma expo_eqI: "2 powr of_int e \<le> \<bar>r\<bar> \<Longrightarrow> \<bar>r\<bar> < 2 powr (of_int e + 1) \<Longrightarrow> expo r = e"
proof -
  assume a: "2 powr of_int e \<le> \<bar>r\<bar>" and b: "\<bar>r\<bar> < 2 powr (of_int e + 1)"
  have p: "0 < \<bar>r\<bar>" using a by (smt (verit) powr_gt_zero)
  have "of_int e \<le> log 2 \<bar>r\<bar>" using a p by (simp add: le_log_iff)
  moreover have "log 2 \<bar>r\<bar> < of_int e + 1" using b p by (simp add: log_less_iff)
  ultimately show ?thesis unfolding expo_def by linarith
qed



lemma unat32: "unat (w :: 32 word) < 2 ^ 32"
  using unsigned_less [of w, where ?'a = nat] by simp

lemma toInt_nonneg: "0 \<le> r \<Longrightarrow> 0 \<le> toInt r"
  by (simp add: toInt_def)

section \<open>Facts about the helpers\<close>

lemma qFloor_floor: "qFloor v = \<lfloor>v\<rfloor>"
proof (cases "0 \<le> v")
  case True
  then show ?thesis by (simp add: qFloor_def toInt_def Let_def not_less)
next
  case False
  have "v < of_int \<lfloor>v\<rfloor> + 1" by linarith
  with False show ?thesis
    by (auto simp add: qFloor_def toInt_def Let_def ceiling_altdef less_le)
qed

lemma qCeil_ceiling: "qCeil v = \<lceil>v\<rceil>"
proof (cases "0 \<le> v")
  case True
  have "of_int \<lfloor>v\<rfloor> \<le> v" by linarith
  with True show ?thesis
    by (auto simp add: qCeil_def toInt_def Let_def ceiling_altdef less_le)
next
  case False
  then show ?thesis by (simp add: qCeil_def toInt_def Let_def not_less)
qed



lemma createUserData_slot:
  "handle \<noteq> 0 \<Longrightarrow> GWLP_USERDATA (createUserData env s handle d) handle \<noteq> None"
  by (simp add: createUserData_def Let_def split: option.split)

lemma createUserData_present:
  "GWLP_USERDATA s handle = Some u \<Longrightarrow> createUserData env s handle None = s"
  by (simp add: createUserData_def)

lemma createUserData_list:
  "m_framelessWindows (createUserData env s handle d) = m_framelessWindows s"
  by (simp add: createUserData_def Let_def split: option.split)

lemma createUserData_keeps:
  "GWLP_USERDATA s h = Some u \<Longrightarrow> GWLP_USERDATA (createUserData env s h' None) h = Some u"
  by (auto simp add: createUserData_def Let_def split: option.split)

lemma borderWidth_keeps:
  "GWLP_USERDATA s h = Some u \<Longrightarrow> GWLP_USERDATA (snd (borderWidth env s h')) h = Some u"
  by (simp add: borderWidth_def Let_def createUserData_keeps split: option.split)

lemma borderHeight_keeps:
  "GWLP_USERDATA s h = Some u \<Longrightarrow> GWLP_USERDATA (snd (borderHeight env s h')) h = Some u"
  by (simp add: borderHeight_def Let_def createUserData_keeps split: option.split)

lemma titlebarHeight_keeps:
  "GWLP_USERDATA s h = Some u \<Longrightarrow> GWLP_USERDATA (snd (titlebarHeight env s h')) h = Some u"
  by (simp add: titlebarHeight_def titlebarHeight_default_def Let_def split_beta
        createUserData_keeps borderHeight_keeps split: option.split)







section \<open>Hit testing\<close>

lemma contains_scaled:
  assumes "0 \<le> dpr"
  shows "isValid area \<and> contains (scaled area dpr) x y True \<longleftrightarrow> insideScaled x y area dpr"
proof (cases "isValid area")
  case False
  then show ?thesis by (auto simp add: isValid_def insideScaled_def Let_def)
next
  case True
  then have w: "0 \<le> toInt (dbl (of_int (x2 area - x1 area + 1) * dpr))"
    and h: "0 \<le> toInt (dbl (of_int (y2 area - y1 area + 1) * dpr))"
    using assms by (simp_all add: isValid_def toInt_nonneg dbl_nonneg)
  from True w h show ?thesis
    by (auto simp add: isValid_def insideScaled_def contains_def scaled_def mkQRect_def
          rect_x_def rect_y_def rect_width_def rect_height_def Let_def)
qed

lemma isInSpecificAreas_iff:
  "0 \<le> dpr \<Longrightarrow> isInSpecificAreas x y areas dpr \<longleftrightarrow> insideSomeArea x y areas dpr"
  unfolding insideSomeArea_def
  by (induction areas) (auto simp add: contains_scaled [symmetric])


lemma getHTResult_classify:
  "hitInputs env s h lp = (i, s') \<Longrightarrow>
     getHTResult env s h lp data = (classify (IsMaximized env h) i data, s')"
  by (simp add: getHTResult_def)

lemma classify_maximized:
  "classify True i data =
     (if isTitlebar (hi_ww i) (hi_wh i) (hi_mouse i) (hi_tbh i) data (hi_dpr i)
      then HTCAPTION else HTCLIENT)"
  by (simp add: classify_def Let_def)

lemma classify_normal:
  "classify False i data =
     edgeResult
       (isInsideWindow (hi_ww i) (hi_wh i) (hi_mouse i) \<and> py (hi_mouse i) < hi_bh i)
       (isInsideWindow (hi_ww i) (hi_wh i) (hi_mouse i) \<and> py (hi_mouse i) > hi_wh i - hi_bh i)
       (isInsideWindow (hi_ww i) (hi_wh i) (hi_mouse i) \<and> px (hi_mouse i) < hi_bw i)
       (isInsideWindow (hi_ww i) (hi_wh i) (hi_mouse i) \<and> px (hi_mouse i) > hi_ww i - hi_bw i)
       (isTitlebar (hi_ww i) (hi_wh i) (hi_mouse i) (hi_tbh i) data (hi_dpr i))"
  by (simp add: classify_def Let_def)

lemma edgeResult_order: "edgeResult t b l r c = spec_edgeOrder t b l r c"
  by (simp add: edgeResult_def spec_edgeOrder_def)


lemma edgeResult_range:
  "edgeResult t b l r c \<in> {HTCLIENT, HTCAPTION, HTLEFT, HTRIGHT, HTTOP, HTTOPLEFT, HTTOPRIGHT,
      HTBOTTOM, HTBOTTOMLEFT, HTBOTTOMRIGHT}"
  by (simp add: edgeResult_def)

lemma classify_range:
  "classify m i data \<in> {HTCLIENT, HTCAPTION, HTLEFT, HTRIGHT, HTTOP, HTTOPLEFT, HTTOPRIGHT,
      HTBOTTOM, HTBOTTOMLEFT, HTBOTTOMRIGHT}"
proof (cases m)
  case True
  then show ?thesis by (simp add: classify_maximized)
next
  case False
  then show ?thesis using edgeResult_range by (simp only: classify_normal)
qed

subsection \<open>The concrete window\<close>

lemmas dbl_simps = dbl_0 dbl_1 dbl_numeral dbl_numeral_half

lemma demo_slot: "GWLP_USERDATA demoWorld 2 = Some demoWindow"
  by (simp add: demoWorld_def)

lemma demo_dpr: "getDprForWindow demoEnv 2 = 1"
  by (simp add: getDprForWindow_def getDpiForWindow_def demoEnv_def qRound_def toInt_def
        dbl_simps)

lemma demo_dpr_max: "getDprForWindow demoMaximized 2 = 1"
  by (simp add: getDprForWindow_def getDpiForWindow_def demoEnv_def demoMaximized_def
        qRound_def toInt_def dbl_simps)

lemma demo_dpr_high: "getDprForWindow demoHighDpi 2 = 2"
  by (simp add: getDprForWindow_def getDpiForWindow_def demoEnv_def demoMaximized_def
        demoHighDpi_def qRound_def toInt_def dbl_simps)

lemma demo_metrics:
  "borderWidth demoEnv demoWorld 2 = (8, demoWorld)"
  "borderHeight demoEnv demoWorld 2 = (8, demoWorld)"
  "titlebarHeight demoEnv demoWorld 2 = (32, demoWorld)"
  by (simp_all add: borderWidth_def borderHeight_def titlebarHeight_def Let_def
        createUserData_present [OF demo_slot] demo_slot demo_dpr demoWindow_def toInt_def
        dbl_simps)

lemma demo_metrics_max:
  "borderWidth demoMaximized demoWorld 2 = (8, demoWorld)"
  "borderHeight demoMaximized demoWorld 2 = (8, demoWorld)"
  "titlebarHeight demoMaximized demoWorld 2 = (32, demoWorld)"
  by (simp_all add: borderWidth_def borderHeight_def titlebarHeight_def Let_def
        createUserData_present [OF demo_slot] demo_slot demo_dpr_max demoWindow_def toInt_def
        dbl_simps)


lemma demo_hitInputs:
  "hitInputs demoEnv demoWorld 2 (MAKELPARAM x y) =
     (\<lparr>hi_ww = 800, hi_wh = 600,
       hi_mouse = \<lparr>px = GET_X_LPARAM (MAKELPARAM x y), py = GET_Y_LPARAM (MAKELPARAM x y)\<rparr>,
       hi_bw = 8, hi_bh = 8, hi_tbh = 32, hi_dpr = 1\<rparr>, demoWorld)"
  by (simp add: hitInputs_def demo_metrics demo_dpr) (simp add: demoEnv_def)

lemma demo_hitInputs_max:
  "hitInputs demoMaximized demoWorld 2 (MAKELPARAM x y) =
     (\<lparr>hi_ww = 800, hi_wh = 600,
       hi_mouse = \<lparr>px = GET_X_LPARAM (MAKELPARAM x y), py = GET_Y_LPARAM (MAKELPARAM x y)\<rparr>,
       hi_bw = 8, hi_bh = 8, hi_tbh = 32, hi_dpr = 1\<rparr>, demoWorld)"
  by (simp add: hitInputs_def demo_metrics_max demo_dpr_max)
     (simp add: demoEnv_def demoMaximized_def)


lemma demo_points:
  "GET_X_LPARAM (MAKELPARAM 400 16) = 400" "GET_Y_LPARAM (MAKELPARAM 400 16) = 16"
  "GET_X_LPARAM (MAKELPARAM 200 16) = 200" "GET_Y_LPARAM (MAKELPARAM 200 16) = 16"
  "GET_X_LPARAM (MAKELPARAM 200 4) = 200" "GET_Y_LPARAM (MAKELPARAM 200 4) = 4"
  "GET_X_LPARAM (MAKELPARAM 750 16) = 750" "GET_Y_LPARAM (MAKELPARAM 750 16) = 16"
  "GET_X_LPARAM (MAKELPARAM 4 4) = 4" "GET_Y_LPARAM (MAKELPARAM 4 4) = 4"
  "GET_X_LPARAM (MAKELPARAM 900 16) = 900" "GET_Y_LPARAM (MAKELPARAM 900 16) = 16"
  by (simp_all add: GET_X_LPARAM_def GET_Y_LPARAM_def MAKELPARAM_def LOWORD_def HIWORD_def
        short_def)

lemma demo_areas: "ignoreAreas (windowData demoWindow) = [\<lparr>x1 = 350, y1 = 0, x2 = 449, y2 = 31\<rparr>]"
  by (simp add: demoWindow_def mkQRect_def)

lemma demo_ignored: "insideSomeArea 400 16 (ignoreAreas (windowData demoWindow)) 1"
  by (simp add: insideSomeArea_def insideScaled_def demo_areas toInt_def dbl_simps)

lemma demo_not_ignored: "\<not> insideSomeArea 200 16 (ignoreAreas (windowData demoWindow)) 1"
  by (simp add: insideSomeArea_def insideScaled_def demo_areas toInt_def dbl_simps)


lemma demo_not_ignored_corner: "\<not> insideSomeArea 4 4 (ignoreAreas (windowData demoWindow)) 1"
  by (simp add: insideSomeArea_def insideScaled_def demo_areas toInt_def dbl_simps)



lemma demo_draggable: "draggableAreas (windowData demoWindow) = []"
  by (simp add: demoWindow_def)




text \<open>
  C2. For a maximized window the hit test answers \<open>HTCAPTION\<close> when the title-bar test
  holds and \<open>HTCLIENT\<close> otherwise, and so never an edge or a corner.
\<close>

theorem maximized_two_outcomes:
  assumes "hitInputs env s h lp = (i, s')" and "IsMaximized env h"
  shows "fst (getHTResult env s h lp data) =
           (if isTitlebar (hi_ww i) (hi_wh i) (hi_mouse i) (hi_tbh i) data (hi_dpr i)
            then HTCAPTION else HTCLIENT)
       \<and> fst (getHTResult env s h lp data) \<notin>
           {HTLEFT, HTRIGHT, HTTOP, HTTOPLEFT, HTTOPRIGHT, HTBOTTOM, HTBOTTOMLEFT,
            HTBOTTOMRIGHT}"
  using getHTResult_classify [OF assms(1), of "data"] assms(2)
  by (simp add: classify_maximized)

theorem maximized_two_outcomes_witness:
  "IsMaximized demoMaximized 2
   \<and> fst (getHTResult demoMaximized demoWorld 2 (MAKELPARAM 4 4) demoWindow) = HTCAPTION
   \<and> fst (getHTResult demoMaximized demoWorld 2 (MAKELPARAM 400 16) demoWindow) = HTCLIENT"
proof -
  have m: "IsMaximized demoMaximized 2" by (simp add: demoMaximized_def)
  show ?thesis
    using maximized_two_outcomes [OF demo_hitInputs_max m, of 4 4 demoWindow]
      maximized_two_outcomes [OF demo_hitInputs_max m, of 400 16 demoWindow]
      demo_ignored demo_not_ignored_corner demo_draggable m
    by (simp add: demo_points isTitlebar_def isInsideWindow_def isInSpecificAreas_iff)
qed

text \<open>
  C3. For a window that is not maximized the hit test forms the four band tests, each
  only for a pointer strictly inside the client rectangle (top: \<open>y < bh\<close>, bottom:
  \<open>y > wh - bh\<close>, left: \<open>x < bw\<close>, right: \<open>x > ww - bw\<close>), and its answer is the one
  of the specification's order: top-left, top-right, bottom-left, bottom-right, top,
  bottom, left, right, title bar, client area.
\<close>

theorem edge_corner_resolution:
  assumes "hitInputs env s h lp = (i, s')" and "\<not> IsMaximized env h"
  shows "fst (getHTResult env s h lp data) =
           (let x = px (hi_mouse i); y = py (hi_mouse i);
                inside = (0 < x \<and> x < hi_ww i \<and> 0 < y \<and> y < hi_wh i);
                isTop = (inside \<and> y < hi_bh i);
                isBottom = (inside \<and> y > hi_wh i - hi_bh i);
                isLeft = (inside \<and> x < hi_bw i);
                isRight = (inside \<and> x > hi_ww i - hi_bw i)
            in spec_edgeOrder isTop isBottom isLeft isRight
                 (isTitlebar (hi_ww i) (hi_wh i) (hi_mouse i) (hi_tbh i) data (hi_dpr i)))"
  using getHTResult_classify [OF assms(1), of "data"] assms(2)
  by (simp add: classify_normal edgeResult_order isInsideWindow_def Let_def)

theorem edge_corner_resolution_witness:
  "\<not> IsMaximized demoEnv 2
   \<and> fst (getHTResult demoEnv demoWorld 2 (MAKELPARAM 4 4) demoWindow) = HTTOPLEFT
   \<and> fst (getHTResult demoEnv demoWorld 2 (MAKELPARAM 200 16) demoWindow) = HTCAPTION"
proof -
  have m: "\<not> IsMaximized demoEnv 2" by (simp add: demoEnv_def)
  show ?thesis
    using edge_corner_resolution [OF demo_hitInputs m, of 4 4 demoWindow]
      edge_corner_resolution [OF demo_hitInputs m, of 200 16 demoWindow]
      demo_not_ignored demo_draggable m
    by (simp add: demo_points spec_edgeOrder_def isTitlebar_def isInsideWindow_def
          isInSpecificAreas_iff)
qed

text \<open>
  C4. For a pointer that is not strictly inside the client rectangle (on its boundary or
  outside it, so in particular strictly outside) the hit test answers \<open>HTCLIENT\<close>,
  maximized or not.
\<close>

theorem outside_is_client:
  assumes "hitInputs env s h lp = (i, s')"
    and "px (hi_mouse i) \<le> 0 \<or> hi_ww i \<le> px (hi_mouse i) \<or>
         py (hi_mouse i) \<le> 0 \<or> hi_wh i \<le> py (hi_mouse i)"
  shows "fst (getHTResult env s h lp data) = HTCLIENT"
proof -
  have ni: "\<not> isInsideWindow (hi_ww i) (hi_wh i) (hi_mouse i)"
    using assms(2) by (auto simp add: isInsideWindow_def)
  then have nt: "\<not> isTitlebar (hi_ww i) (hi_wh i) (hi_mouse i) (hi_tbh i) data (hi_dpr i)"
    by (simp add: isTitlebar_def)
  show ?thesis
    using getHTResult_classify [OF assms(1), of "data"] ni nt
    by (cases "IsMaximized env h")
       (simp_all add: classify_maximized classify_normal edgeResult_def)
qed

theorem outside_is_client_witness:
  "(800::int) \<le> 900
   \<and> fst (getHTResult demoEnv demoWorld 2 (MAKELPARAM 900 16) demoWindow) = HTCLIENT
   \<and> fst (getHTResult demoMaximized demoWorld 2 (MAKELPARAM 900 16) demoWindow) = HTCLIENT"
  using outside_is_client [OF demo_hitInputs, of 900 16 demoWindow]
    outside_is_client [OF demo_hitInputs_max, of 900 16 demoWindow]
  by (simp add: demo_points)

section \<open>DPI and scale factor\<close>

lemma dbl_near:
  assumes "0 \<le> r" and "r \<le> 2 ^ 27"
  shows "\<bar>dbl r - r\<bar> \<le> 1 / 2 ^ 26"
proof -
  have "\<bar>dbl r - r\<bar> \<le> \<bar>r\<bar> / 2 ^ 53" by (rule dbl_err)
  also have "\<dots> \<le> 2 ^ 27 / 2 ^ 53" using assms by (simp add: divide_right_mono)
  also have "\<dots> = (1::real) / 2 ^ 26" by simp
  finally show ?thesis .
qed

lemma dbl_near2:
  assumes "0 \<le> r" and "r \<le> 2 ^ 27"
  shows "dbl r \<le> r + 1 / 67108864" and "r - 1 / 67108864 \<le> dbl r"
  using dbl_near [OF assms, unfolded abs_le_iff] by simp_all

lemma dbl_between:
  assumes "0 \<le> r" and "r \<le> 2 ^ 27"
    and "of_int a + 1/96 - 1 / 2 ^ 26 \<le> r" and "r \<le> of_int a + 95/96 + 1 / 2 ^ 26"
  shows "of_int a < dbl r \<and> dbl r < of_int a + 1"
proof -
  from dbl_near2 [OF assms(1,2)] assms(3,4) show ?thesis by simp
qed

lemma quot96:
  fixes n :: nat
  obtains (whole) a where "real n / 96 = of_int a" and "0 \<le> a"
  | (part) a where "of_int a + 1/96 \<le> real n / 96" and "real n / 96 \<le> of_int a + 95/96"
      and "0 \<le> a"
proof -
  define a where "a = n div 96"
  define b where "b = n mod 96"
  have n: "n = 96 * a + b" by (simp add: a_def b_def)
  have b: "b < 96" by (simp add: b_def)
  have q: "real n / 96 = real a + real b / 96" by (simp add: n)
  show thesis
  proof (cases "b = 0")
    case True
    with q have "real n / 96 = of_int (int a)" by simp
    moreover have "0 \<le> int a" by simp
    ultimately show thesis by (rule whole)
  next
    case False
    then have "1 \<le> real b" "real b \<le> 95" using b by simp_all
    then have "of_int (int a) + 1/96 \<le> real n / 96" "real n / 96 \<le> of_int (int a) + 95/96"
      by (simp_all add: q)
    moreover have "0 \<le> int a" by simp
    ultimately show thesis by (rule part)
  qed
qed

lemma quot96_bound: "n < 2 ^ 32 \<Longrightarrow> real n / 96 \<le> 2 ^ 26"
proof -
  assume "n < 2 ^ 32"
  then have "real n < 2 ^ 32" by (metis of_nat_less_numeral_power_cancel_iff)
  then show ?thesis by simp
qed

lemma dbl_quot_floor:
  assumes "n < 2 ^ 32"
  shows "\<lfloor>dbl (real n / 96)\<rfloor> = \<lfloor>real n / 96\<rfloor>"
proof (cases n rule: quot96)
  case (whole a)
  from quot96_bound [OF assms] whole have "real_of_int a \<le> 2 ^ 26" by simp
  then have "a \<le> 2 ^ 26" by (metis of_int_le_numeral_power_cancel_iff)
  with whole(2) have "\<bar>a\<bar> < 2 ^ 53" by simp
  then show ?thesis by (simp add: whole(1) dbl_of_int)
next
  case (part a)
  have r: "0 \<le> real n / 96" "real n / 96 \<le> 2 ^ 27"
    using quot96_bound [OF assms] by simp_all
  from dbl_between [OF r, of a] part
  have "of_int a < dbl (real n / 96) \<and> dbl (real n / 96) < of_int a + 1" by simp
  then have "\<lfloor>dbl (real n / 96)\<rfloor> = a" by linarith
  moreover have "\<lfloor>real n / 96\<rfloor> = a" using part by linarith
  ultimately show ?thesis by simp
qed

lemma dbl_quot_ceiling:
  assumes "n < 2 ^ 32"
  shows "\<lceil>dbl (real n / 96)\<rceil> = \<lceil>real n / 96\<rceil>"
proof (cases n rule: quot96)
  case (whole a)
  from quot96_bound [OF assms] whole have "real_of_int a \<le> 2 ^ 26" by simp
  then have "a \<le> 2 ^ 26" by (metis of_int_le_numeral_power_cancel_iff)
  with whole(2) have "\<bar>a\<bar> < 2 ^ 53" by simp
  then show ?thesis by (simp add: whole(1) dbl_of_int)
next
  case (part a)
  have r: "0 \<le> real n / 96" "real n / 96 \<le> 2 ^ 27"
    using quot96_bound [OF assms] by simp_all
  from dbl_between [OF r, of a] part
  have "of_int a < dbl (real n / 96) \<and> dbl (real n / 96) < of_int a + 1" by simp
  then have "\<lceil>dbl (real n / 96)\<rceil> = a + 1" by linarith
  moreover have "\<lceil>real n / 96\<rceil> = a + 1" using part by linarith
  ultimately show ?thesis by simp
qed

lemma dbl_quot_round:
  assumes "n < 2 ^ 32"
  shows "qRound (dbl (real n / 96)) = round (real n / 96)"
proof -
  define q where "q = real n / 96"
  define d where "d = dbl q"
  have q: "0 \<le> q" "q \<le> 2 ^ 26" using quot96_bound [OF assms] by (simp_all add: q_def)
  then have q27: "q \<le> 2 ^ 27" by simp
  have d0: "0 \<le> d" using q by (simp add: d_def dbl_nonneg)
  have dq: "d \<le> q + 1 / 67108864" "q - 1 / 67108864 \<le> d"
    unfolding d_def by (rule dbl_near2 [OF q(1) q27])+
  have h: "real (n + 48) / 96 = q + 1/2" by (simp add: q_def)
  have "toInt (dbl (d + 1/2)) = \<lfloor>q + 1/2\<rfloor>"
  proof (cases "n + 48" rule: quot96)
    case (whole a)
    then have qa: "q = of_int (2 * a - 1) / 2" using h by simp
    have "real_of_int a \<le> 2 ^ 26 + 1/2" using whole h q by simp
    then have "real_of_int a \<le> 2 ^ 27" by simp
    then have a27: "a \<le> 2 ^ 27" by (metis of_int_le_numeral_power_cancel_iff)
    with whole(2) have k: "\<bar>2 * a - 1\<bar> < 2 ^ 53" by simp
    have "d = q" unfolding d_def qa by (rule dbl_half [OF k])
    then have s: "d + 1/2 = of_int a" using qa by simp
    have "\<bar>a\<bar> < 2 ^ 53" using a27 whole(2) by simp
    then have "dbl (d + 1/2) = of_int a" unfolding s by (rule dbl_of_int)
    moreover have "q + 1/2 = of_int a" using whole(1) h by simp
    then have "\<lfloor>q + 1/2\<rfloor> = a" by (simp only: floor_of_int)
    ultimately show ?thesis using whole(2) by (simp add: toInt_def)
  next
    case (part a)
    have s: "0 \<le> d + 1/2" "d + 1/2 \<le> 2 ^ 27" using d0 dq q by simp_all
    have "of_int a + 1/96 - 1 / 2 ^ 26 \<le> d + 1/2" "d + 1/2 \<le> of_int a + 95/96 + 1 / 2 ^ 26"
      using part h dq by simp_all
    from dbl_between [OF s this]
    have b: "of_int a < dbl (d + 1/2) \<and> dbl (d + 1/2) < of_int a + 1" .
    then have "0 \<le> dbl (d + 1/2)" using part(3) by linarith
    then have "toInt (dbl (d + 1/2)) = \<lfloor>dbl (d + 1/2)\<rfloor>" by (simp add: toInt_def)
    also have "\<dots> = a" using b by linarith
    also have "a = \<lfloor>q + 1/2\<rfloor>" using part h by linarith
    finally show ?thesis .
  qed
  then show ?thesis
    using d0 by (simp add: qRound_def round_def d_def q_def)
qed

lemma dbl_quot_mono:
  assumes "n \<le> n'" and "n' < 2 ^ 32"
  shows "dbl (real n / 96) \<le> dbl (real n' / 96)"
proof (cases "n = n'")
  case True
  then show ?thesis by simp
next
  case False
  with assms have lt: "n + 1 \<le> n'" by simp
  have b: "real n / 96 \<le> 2 ^ 27" "real n' / 96 \<le> 2 ^ 27"
    using quot96_bound [of n] quot96_bound [OF assms(2)] assms by simp_all
  have "real n + 1 \<le> real n'" using lt by linarith
  then have g: "real n / 96 + 1/96 \<le> real n' / 96" by simp
  have l: "dbl (real n / 96) \<le> real n / 96 + 1 / 67108864"
    by (rule dbl_near2 [OF _ b(1)]) simp
  have r: "real n' / 96 - 1 / 67108864 \<le> dbl (real n' / 96)"
    by (rule dbl_near2 [OF _ b(2)]) simp
  from l r g show ?thesis by simp
qed

lemma dpi_floor: "\<lfloor>dbl (real (unat (w :: 32 word)) / 96)\<rfloor> = \<lfloor>real (unat w) / 96\<rfloor>"
  by (rule dbl_quot_floor [OF unat32])

lemma dpi_ceiling: "\<lceil>dbl (real (unat (w :: 32 word)) / 96)\<rceil> = \<lceil>real (unat w) / 96\<rceil>"
  by (rule dbl_quot_ceiling [OF unat32])

lemma dpi_round: "qRound (dbl (real (unat (w :: 32 word)) / 96)) = round (real (unat w) / 96)"
  by (rule dbl_quot_round [OF unat32])

lemma dpi_mono:
  "(d :: 32 word) \<le> d' \<Longrightarrow> dbl (real (unat d) / 96) \<le> dbl (real (unat d') / 96)"
  by (rule dbl_quot_mono [OF _ unat32]) (simp add: word_le_nat_alt)

lemma getDprForWindow_spec:
  assumes "handle \<noteq> 0"
  shows "getDprForWindow env handle =
     spec_scaleFactor (highDpiScaleFactorRoundingPolicy env) (getDpiForWindow env handle)"
  using assms
  by (simp add: getDprForWindow_def spec_scaleFactor_def Let_def qFloor_floor qCeil_ceiling
        dpi_floor [unfolded of_nat_unat] dpi_ceiling [unfolded of_nat_unat]
        dpi_round [unfolded of_nat_unat]
        split: option.split HighDpiScaleFactorRoundingPolicy.split)

lemma spec_scaleFactor_mono:
  assumes "d \<le> d'"
  shows "spec_scaleFactor p d \<le> spec_scaleFactor p d'"
proof -
  from assms have n: "unat d \<le> unat d'" by (simp only: word_le_nat_alt)
  then have "real (unat d) \<le> real (unat d')" by (simp only: of_nat_le_iff)
  then have q: "real (unat d) / 96 \<le> real (unat d') / 96" by (simp only: divide_right_mono)
  show ?thesis
    using floor_mono [OF q] ceiling_mono [OF q] round_mono [OF q] dpi_mono [OF assms]
    by (simp add: spec_scaleFactor_def Let_def split: option.split
          HighDpiScaleFactorRoundingPolicy.split)
qed

lemma getDprForWindow_null: "getDprForWindow env 0 = 1"
  by (simp add: getDprForWindow_def qFloor_floor qCeil_ceiling qRound_def toInt_def dbl_simps
        split: option.split HighDpiScaleFactorRoundingPolicy.split)


lemma demo_dpi: "getDpiForWindow demoEnv 2 = 96"
  by (simp add: getDpiForWindow_def demoEnv_def)

lemma demo_dpi_144:
  "getDpiForWindow (demoEnv\<lparr>m_GetDpiForWindow := Some (\<lambda>h. 144)\<rparr>) 2 = 144"
  by (simp add: getDpiForWindow_def)

lemma demo_dpi_null: "getDpiForWindow demoEnv 0 = 144"
  by (simp add: getDpiForWindow_def demoEnv_def)

lemma demo_policy: "highDpiScaleFactorRoundingPolicy demoEnv = Some Round"
  by (simp add: demoEnv_def)

lemma demo_scale_96: "spec_scaleFactor (Some Round) 96 = 1"
  by (simp add: spec_scaleFactor_def)

lemma demo_scale_144: "spec_scaleFactor (Some Round) 144 = 2"
  by (simp add: spec_scaleFactor_def round_def)

text \<open>
  The double arithmetic matters: at 104 DPI without rounding the scale factor is the
  double nearest to 13/12, which lies below it, and a length of 108 scales to 116 where
  the exact product is 117.
\<close>

lemma dbl_eval:
  assumes "expo r = e" and "r \<noteq> 0" and "2 powr (of_int e - 52) = u" and "rne (r / u) = m"
  shows "dbl r = of_int m * u"
proof -
  have "dbl r = of_int (rne (r / 2 powr (of_int (expo r) - 52)))
                  * 2 powr (of_int (expo r) - 52)"
    using assms(2) by (simp only: dbl_def if_False)
  then show ?thesis by (simp only: assms)
qed

lemma dbl_13_12: "dbl (13 / 12) = 4878899596318037 / 4503599627370496"
proof -
  have "dbl (13 / 12) = of_int 4878899596318037 * (1 / 4503599627370496)"
  proof (rule dbl_eval [where e = 0])
    show "expo (13 / 12) = 0" by (rule expo_eqI) simp_all
    show "(13 / 12 :: real) \<noteq> 0" by simp
    show "(2::real) powr (of_int 0 - 52) = 1 / 4503599627370496"
      by (simp add: powr_minus_divide)
    show "rne (13 / 12 / (1 / 4503599627370496)) = 4878899596318037"
      by (simp add: rne_def Let_def)
  qed
  then show ?thesis by simp
qed

lemma dbl_108_13_12: "toInt (dbl (108 * dbl (104 / 96))) = 116"
proof -
  define r :: real where "r = 131730289100586999 / 1125899906842624"
  have r: "108 * dbl (104 / 96) = r" by (simp add: dbl_13_12 r_def)
  have "dbl r = of_int 8233143068786687 * (1 / 70368744177664)"
  proof (rule dbl_eval [where e = 6])
    show "expo r = 6" by (rule expo_eqI) (simp_all add: r_def)
    show "r \<noteq> 0" by (simp add: r_def)
    show "(2::real) powr (of_int 6 - 52) = 1 / 70368744177664"
      by (simp add: powr_minus_divide)
    show "rne (r / (1 / 70368744177664)) = 8233143068786687"
      by (simp add: rne_def Let_def r_def)
  qed
  then have d: "dbl r = 8233143068786687 / 70368744177664" by simp
  have "toInt (dbl r) = 116" unfolding d by (simp add: toInt_def)
  then show ?thesis by (simp only: r)
qed

text \<open>
  C5, as the code has it. For a window (a non-null handle) the scale factor is the DPI
  resolved for it divided by 96 in double arithmetic, then passed through unchanged,
  rounded down, rounded up or rounded to the nearest integer as the policy says (to the
  nearest integer when no policy is set, and in a Qt that has no such setting); the
  rounded results are those of the exact quotient. For the null handle the scale factor
  is 1 whatever DPI is resolved for it. Among windows under one policy a larger DPI
  never gives a smaller scale factor.
\<close>

theorem scale_factor_policy_monotone:
  "(handle \<noteq> 0 \<longrightarrow>
      getDprForWindow env handle =
        spec_scaleFactor (highDpiScaleFactorRoundingPolicy env) (getDpiForWindow env handle))
   \<and> getDprForWindow env 0 = 1
   \<and> (handle \<noteq> 0 \<and> handle' \<noteq> 0
       \<and> highDpiScaleFactorRoundingPolicy env' = highDpiScaleFactorRoundingPolicy env
       \<and> getDpiForWindow env handle \<le> getDpiForWindow env' handle'
       \<longrightarrow> getDprForWindow env handle \<le> getDprForWindow env' handle')"
  using spec_scaleFactor_mono
  by (simp add: getDprForWindow_spec getDprForWindow_null)

theorem scale_factor_policy_monotone_witness:
  "getDprForWindow demoEnv 2 = 1
   \<and> getDprForWindow (demoEnv\<lparr>m_GetDpiForWindow := Some (\<lambda>h. 144)\<rparr>) 2 = 2
   \<and> getDprForWindow demoEnv 2
       \<le> getDprForWindow (demoEnv\<lparr>m_GetDpiForWindow := Some (\<lambda>h. 144)\<rparr>) 2"
  using scale_factor_policy_monotone [where handle = 2 and handle' = 2 and env = demoEnv
      and env' = "demoEnv\<lparr>m_GetDpiForWindow := Some (\<lambda>h. 144)\<rparr>"]
    scale_factor_policy_monotone [where handle = 2 and handle' = 2 and env' = demoEnv
      and env = "demoEnv\<lparr>m_GetDpiForWindow := Some (\<lambda>h. 144)\<rparr>"]
  by (simp add: demo_dpi demo_dpi_144 demo_policy demo_scale_96 demo_scale_144)

text \<open>
  C5 as stated fails for the null handle. There the code resolves a DPI of 144 (the
  process query), of which the scale factor under the rounding policy would be 2, and
  answers 1. Nor is the scale factor monotonic once the null handle is counted: with a
  process DPI of 288 the null handle still gets 1 while a window at 192 DPI gets 2.
\<close>

theorem scale_factor_policy_monotone_counterexample:
  "getDpiForWindow demoEnv 0 = 144
   \<and> spec_scaleFactor (highDpiScaleFactorRoundingPolicy demoEnv) (getDpiForWindow demoEnv 0) = 2
   \<and> getDprForWindow demoEnv 0 = 1
   \<and> getDpiForWindow (demoHighDpi\<lparr>m_GetSystemDpiForProcess := Some (\<lambda>p. 288)\<rparr>) 2 = 192
   \<and> getDpiForWindow (demoHighDpi\<lparr>m_GetSystemDpiForProcess := Some (\<lambda>p. 288)\<rparr>) 0 = 288
   \<and> getDprForWindow (demoHighDpi\<lparr>m_GetSystemDpiForProcess := Some (\<lambda>p. 288)\<rparr>) 2 = 2
   \<and> getDprForWindow (demoHighDpi\<lparr>m_GetSystemDpiForProcess := Some (\<lambda>p. 288)\<rparr>) 0 = 1"
  by (simp add: demo_dpi_null demo_policy demo_scale_144 getDprForWindow_null
        getDpiForWindow_def demoHighDpi_def demoMaximized_def demo_dpr_high [unfolded demoHighDpi_def demoMaximized_def]
        getDprForWindow_spec spec_scaleFactor_def round_def demoEnv_def)

lemma getScreenDpi_tiers:
  "getScreenDpi env d = firstAvailable [tier_direct2d env, tier_deviceContext env] d"
  by (simp add: getScreenDpi_def tier_direct2d_def tier_deviceContext_def split: option.split)

text \<open>
  C9, as the code has it. There are two chains, chosen by the handle. For the null handle:
  the process query, the system query, the Direct2D desktop DPI, the device context, 96.
  For any other handle: the window query, the monitor query, the Direct2D desktop DPI,
  the device context, 96. In each chain the first tier that is available answers, and the
  query always has an answer.
\<close>

theorem dpi_resolution_order:
  "getDpiForWindow env handle =
     (if handle = 0
      then firstAvailable [tier_process env, tier_system env,
                           tier_direct2d env, tier_deviceContext env] 96
      else firstAvailable [tier_window env handle, tier_monitor env handle,
                           tier_direct2d env, tier_deviceContext env] 96)"
  by (simp add: getDpiForWindow_def getScreenDpi_tiers tier_process_def tier_system_def
        tier_window_def tier_monitor_def split: option.split)

text \<open>
  C9 as stated fails. With every API available and the null handle the code asks the
  process query (144) and never the window query, which the stated order puts first (and
  which answers 0 for the null handle); and for a window on a system that has the process
  query but not the window query the code answers with the monitor query (120), not
  with the process query (144).
\<close>

theorem dpi_resolution_order_counterexample:
  "getDpiForWindow demoEnv 0 = 144 \<and> spec_dpiOrder demoEnv 0 = 0
   \<and> getDpiForWindow (demoEnv\<lparr>m_GetDpiForWindow := None\<rparr>) 2 = 120
   \<and> spec_dpiOrder (demoEnv\<lparr>m_GetDpiForWindow := None\<rparr>) 2 = 144"
  by (simp add: getDpiForWindow_def spec_dpiOrder_def tier_window_def tier_process_def
        demoEnv_def)

section \<open>The filter\<close>

lemma oscall_slot: "GWLP_USERDATA (oscall c s) = GWLP_USERDATA s"
  by (simp add: oscall_def)

lemma setStyle_slot: "GWLP_USERDATA (setStyle h v s) = GWLP_USERDATA s"
  by (simp add: setStyle_def)

lemma updateWindow_slot: "GWLP_USERDATA (updateWindow s h) = GWLP_USERDATA s"
  by (simp add: updateWindow_def oscall_slot)

lemma handleBlurForWindow_slot:
  "GWLP_USERDATA (handleBlurForWindow env s h) = GWLP_USERDATA s"
  by (simp add: handleBlurForWindow_def Let_def oscall_slot split: option.split)

lemma handleDwmCompositionChanged_slot:
  "GWLP_USERDATA s h = Some data \<Longrightarrow>
   GWLP_USERDATA (handleDwmCompositionChanged env s h) h
     = Some (data\<lparr>dwmCompositionEnabled := DwmIsCompositionEnabled env\<rparr>)"
  by (simp add: handleDwmCompositionChanged_def Let_def updateWindow_slot
        handleBlurForWindow_slot oscall_slot)

lemma handleThemeChanged_slot:
  "GWLP_USERDATA s h = Some data \<Longrightarrow>
   GWLP_USERDATA (handleThemeChanged env s h) h
     = Some (data\<lparr>themeEnabled := IsThemeActive env\<rparr>)"
  by (simp add: handleThemeChanged_def)

lemma init_slot:
  assumes "GWLP_USERDATA s h = Some data"
  shows "GWLP_USERDATA (init env s h) h
     = Some (data\<lparr>inited := True, dwmCompositionEnabled := DwmIsCompositionEnabled env,
                  themeEnabled := IsThemeActive env\<rparr>)"
proof -
  define s4 where "s4 = oscall (SetLayeredWindowAttributes (hWnd data))
               (oscall (SetWindowLongPtr_EXSTYLE (hWnd data))
                  (setStyle (hWnd data) (WS_OVERLAPPEDWINDOW OR WS_CLIPCHILDREN OR WS_CLIPSIBLINGS)
                     (s\<lparr>GWLP_USERDATA := (GWLP_USERDATA s)(h \<mapsto> data\<lparr>inited := True\<rparr>)\<rparr>)))"
  have a: "GWLP_USERDATA s4 h = Some (data\<lparr>inited := True\<rparr>)"
    by (simp add: s4_def oscall_slot setStyle_slot)
  define s6 where "s6 = handleThemeChanged env (handleDwmCompositionChanged env s4 h) h"
  have b: "init env s h =
             snd (titlebarHeight env
                    (snd (borderHeight env (snd (borderWidth env s6 (hWnd data))) (hWnd data)))
                    (hWnd data))"
    using assms by (simp add: init_def Let_def s4_def s6_def split_beta)
  note c = handleDwmCompositionChanged_slot [OF a, of env]
  note d = handleThemeChanged_slot [OF c, of env]
  have e: "GWLP_USERDATA s6 h
             = Some (data\<lparr>inited := True, dwmCompositionEnabled := DwmIsCompositionEnabled env,
                          themeEnabled := IsThemeActive env\<rparr>)"
    using d by (simp add: s6_def)
  show ?thesis
    unfolding b by (rule titlebarHeight_keeps [OF borderHeight_keeps [OF borderWidth_keeps [OF e]]])
qed

lemma prepared_slot:
  assumes "h \<noteq> 0"
  shows "\<exists>data. GWLP_USERDATA (prepared env s h) h = Some data \<and> inited data"
proof -
  let ?s1 = "createUserData env s h None"
  from createUserData_slot [OF assms] obtain data where d: "GWLP_USERDATA ?s1 h = Some data"
    by blast
  show ?thesis
  proof (cases "inited data")
    case True
    with d show ?thesis by (simp add: prepared_def Let_def)
  next
    case False
    with d init_slot [OF d, of env] show ?thesis by (simp add: prepared_def Let_def)
  qed
qed



lemma intercepted_handle: "intercepted env s msg \<Longrightarrow> hwnd msg \<noteq> 0"
  by (auto simp add: intercepted_def split: if_splits)


lemma filter_dispatch:
  assumes "intercepted env s msg"
    and "GWLP_USERDATA (prepared env s (hwnd msg)) (hwnd msg) = Some data"
  shows "nativeEventFilter env s msg = dispatch env (prepared env s (hwnd msg)) data msg"
proof -
  let ?h = "hwnd msg"
  from assms(1) have h: "?h \<noteq> 0" by (rule intercepted_handle)
  from assms(1) h have g: "\<not> (if m_framelessWindows s = []
               then \<not> isTopLevel (topLevelWindows env) ?h
               else ?h \<notin> set (m_framelessWindows s))"
    by (auto simp add: intercepted_def split: if_splits)
  from h g assms(2) show ?thesis by (simp add: nativeEventFilter_def Let_def)
qed

lemma dispatch_NCCALCSIZE:
  "message msg = WM_NCCALCSIZE \<Longrightarrow> dispatch env s data msg = reply 0 s (ncCalcSize env msg)"
  by (simp add: dispatch_def Let_def)



lemma filter_NCCALCSIZE:
  assumes "intercepted env s msg" and "message msg = WM_NCCALCSIZE"
  shows "nativeEventFilter env s msg
           = reply 0 (prepared env s (hwnd msg)) (ncCalcSize env msg)"
proof -
  from prepared_slot [OF intercepted_handle [OF assms(1)], of env s] obtain data
    where "GWLP_USERDATA (prepared env s (hwnd msg)) (hwnd msg) = Some data" by blast
  from filter_dispatch [OF assms(1) this] dispatch_NCCALCSIZE [OF assms(2)]
  show ?thesis by simp
qed

lemma static_cast_BOOL_zero: "static_cast_BOOL w = 0 \<longleftrightarrow> w mod 2 ^ 32 = 0"
  by (simp add: static_cast_BOOL_def signed_eq_0_iff word_of_nat_eq_0_iff mod_eq_0_iff_dvd)

lemma autohide_bit: "(w :: 32 word) AND 1 \<noteq> 0 \<longleftrightarrow> odd w"
  by (simp add: and_one_eq odd_iff_mod_2_eq_one)

lemma ncCalcSize_cases:
  "rgrc0 (ncCalcSize env msg) =
     (let monitor = MonitorFromWindow env (hwnd msg);
          info = getMonitorInfo env monitor;
          work = rcWork info;
          taskbar = FindWindow_Shell_TrayWnd env;
          edge = (case ABM_GETTASKBARPOS env of Some e \<Rightarrow> sint e | None \<Rightarrow> ABE_LEFT)
      in if wParam msg mod 2 ^ 32 = 0 \<or> \<not> IsMaximized env (hwnd msg) \<or> monitor = 0
         then rgrc0 msg
         else if work \<noteq> rcMonitor info \<or> even (ABM_GETSTATE env)
                 \<or> taskbar = 0 \<or> MonitorFromWindow env taskbar \<noteq> monitor then work
         else if edge = ABE_BOTTOM then work\<lparr>bottom := bottom work - 1\<rparr>
         else if edge = ABE_LEFT then work\<lparr>left := left work + 1\<rparr>
         else if edge = ABE_TOP then work\<lparr>top := top work + 1\<rparr>
         else if edge = ABE_RIGHT then work\<lparr>right := right work - 1\<rparr>
         else work)"
proof -
  let ?monitor = "MonitorFromWindow env (hwnd msg)"
  let ?work = "rcWork (getMonitorInfo env ?monitor)"
  let ?edge = "case ABM_GETTASKBARPOS env of Some e \<Rightarrow> sint e | None \<Rightarrow> 0"
  consider (unchanged) "wParam msg mod 2 ^ 32 = 0 \<or> \<not> IsMaximized env (hwnd msg) \<or> ?monitor = 0"
    | (work) "wParam msg mod 2 ^ 32 \<noteq> 0" "IsMaximized env (hwnd msg)" "?monitor \<noteq> 0"
        "?work \<noteq> rcMonitor (getMonitorInfo env ?monitor) \<or> even (ABM_GETSTATE env)
           \<or> FindWindow_Shell_TrayWnd env = 0
           \<or> MonitorFromWindow env (FindWindow_Shell_TrayWnd env) \<noteq> ?monitor"
    | (trim) "wParam msg mod 2 ^ 32 \<noteq> 0" "IsMaximized env (hwnd msg)" "?monitor \<noteq> 0"
        "?work = rcMonitor (getMonitorInfo env ?monitor)" "odd (ABM_GETSTATE env)"
        "FindWindow_Shell_TrayWnd env \<noteq> 0"
        "MonitorFromWindow env (FindWindow_Shell_TrayWnd env) = ?monitor"
    by blast
  then show ?thesis
  proof cases
    case unchanged
    then show ?thesis by (auto simp add: ncCalcSize_def Let_def static_cast_BOOL_zero)
  next
    case work
    then show ?thesis
      by (auto simp add: ncCalcSize_def Let_def taskbarEdge_def trimEdge_def autohide_bit
            static_cast_BOOL_zero)
  next
    case trim
    then have "rgrc0 (ncCalcSize env msg) = trimEdge ?edge ?work"
      by (simp add: ncCalcSize_def Let_def taskbarEdge_def autohide_bit static_cast_BOOL_zero)
    with trim show ?thesis
      by (simp add: Let_def trimEdge_def split: option.split)
  qed
qed


text \<open>
  C6, as the code has it. A frame query that the filter takes up is answered as handled,
  with result 0. The code casts \<open>wParam\<close> to a 32-bit \<open>BOOL\<close>, so the parameter
  counts as false when its low 32 bits are zero. The rectangle is replaced by the
  monitor's work area when \<open>wParam\<close> is not false, the window is maximized and a monitor
  is found; if, then, the work area is the whole monitor, the task bar's state has the
  auto-hide bit and the task bar window sits on the same monitor, one pixel is taken off
  at the task bar's edge: bottom, left, top or right, the left edge when the position
  query fails (the zeroed structure says edge 0), and nothing when the edge reported is
  none of the four. In every other case, a query with \<open>wParam\<close> false among them, the
  rectangle stays as it was proposed.
\<close>

theorem frame_query:
  assumes "intercepted env s msg" and "message msg = WM_NCCALCSIZE"
  shows "handled (nativeEventFilter env s msg)
       \<and> result (nativeEventFilter env s msg) = Some 0
       \<and> rgrc0 (msg_out (nativeEventFilter env s msg)) =
     (let monitor = MonitorFromWindow env (hwnd msg);
          info = getMonitorInfo env monitor;
          work = rcWork info;
          taskbar = FindWindow_Shell_TrayWnd env;
          edge = (case ABM_GETTASKBARPOS env of Some e \<Rightarrow> sint e | None \<Rightarrow> ABE_LEFT)
      in if wParam msg mod 2 ^ 32 = 0 \<or> \<not> IsMaximized env (hwnd msg) \<or> monitor = 0
         then rgrc0 msg
         else if work \<noteq> rcMonitor info \<or> even (ABM_GETSTATE env)
                 \<or> taskbar = 0 \<or> MonitorFromWindow env taskbar \<noteq> monitor then work
         else if edge = ABE_BOTTOM then work\<lparr>bottom := bottom work - 1\<rparr>
         else if edge = ABE_LEFT then work\<lparr>left := left work + 1\<rparr>
         else if edge = ABE_TOP then work\<lparr>top := top work + 1\<rparr>
         else if edge = ABE_RIGHT then work\<lparr>right := right work - 1\<rparr>
         else work)"
proof -
  have r: "nativeEventFilter env s msg
             = reply 0 (prepared env s (hwnd msg)) (ncCalcSize env msg)"
    by (rule filter_NCCALCSIZE [OF assms])
  have "handled (nativeEventFilter env s msg)"
    and "result (nativeEventFilter env s msg) = Some 0"
    and "rgrc0 (msg_out (nativeEventFilter env s msg)) = rgrc0 (ncCalcSize env msg)"
    by (simp_all add: r reply_def)
  then show ?thesis by (simp only: ncCalcSize_cases)
qed

lemma demo_intercepted: "intercepted demoMaximized demoWorld (demoMsg m w)"
  by (simp add: intercepted_def demoWorld_def demoMsg_def)

lemma demo_work:
  "rcWork (getMonitorInfo demoMaximized (MonitorFromWindow demoMaximized 2)) = demoMonitor"
  by (simp add: getMonitorInfo_def demoMaximized_def demoEnv_def)

theorem frame_query_witness:
  "handled (nativeEventFilter demoMaximized demoWorld (demoMsg WM_NCCALCSIZE 1))
   \<and> result (nativeEventFilter demoMaximized demoWorld (demoMsg WM_NCCALCSIZE 1)) = Some 0
   \<and> rgrc0 (msg_out (nativeEventFilter demoMaximized demoWorld (demoMsg WM_NCCALCSIZE 1)))
       = \<lparr>left = 0, top = 0, right = 1920, bottom = 1079\<rparr>
   \<and> rgrc0 (msg_out (nativeEventFilter demoMaximized demoWorld
                        (demoMsg WM_NCCALCSIZE 4294967296)))
       = \<lparr>left = -8, top = -8, right = 1928, bottom = 1088\<rparr>"
proof -
  have m: "message (demoMsg WM_NCCALCSIZE w) = WM_NCCALCSIZE" for w by (simp add: demoMsg_def)
  show ?thesis
    using frame_query [OF demo_intercepted m, of 1]
      frame_query [OF demo_intercepted m, of 4294967296]
    by (simp add: Let_def getMonitorInfo_def demoMaximized_def demoEnv_def demoMsg_def
          demoMonitor_def)
qed

text \<open>
  C6 as stated fails: for a maximized window and a frame query with \<open>wParam\<close> zero the
  rectangle is not replaced by the work area; it stays as proposed.
\<close>

theorem frame_query_counterexample:
  "intercepted demoMaximized demoWorld (demoMsg WM_NCCALCSIZE 0)
   \<and> message (demoMsg WM_NCCALCSIZE 0) = WM_NCCALCSIZE
   \<and> IsMaximized demoMaximized (hwnd (demoMsg WM_NCCALCSIZE 0))
   \<and> rcWork (getMonitorInfo demoMaximized (MonitorFromWindow demoMaximized 2))
       = \<lparr>left = 0, top = 0, right = 1920, bottom = 1080\<rparr>
   \<and> rgrc0 (msg_out (nativeEventFilter demoMaximized demoWorld (demoMsg WM_NCCALCSIZE 0)))
       = \<lparr>left = -8, top = -8, right = 1928, bottom = 1088\<rparr>"
proof -
  have m: "message (demoMsg WM_NCCALCSIZE 0) = WM_NCCALCSIZE" by (simp add: demoMsg_def)
  have "rgrc0 (msg_out (nativeEventFilter demoMaximized demoWorld (demoMsg WM_NCCALCSIZE 0)))
       = \<lparr>left = -8, top = -8, right = 1928, bottom = 1088\<rparr>"
    unfolding filter_NCCALCSIZE [OF demo_intercepted m]
    by (simp add: reply_def ncCalcSize_def static_cast_BOOL_def demoMsg_def)
  moreover have "IsMaximized demoMaximized (hwnd (demoMsg WM_NCCALCSIZE 0))"
    by (simp add: demoMaximized_def)
  ultimately show ?thesis
    using demo_intercepted m demo_work by (simp add: demoMonitor_def)
qed











section \<open>Registering and unregistering\<close>

lemma install_list: "m_framelessWindows (install s) = m_framelessWindows s"
  by (simp add: install_def oscall_def)

lemma install_slot: "GWLP_USERDATA (install s) = GWLP_USERDATA s"
  by (simp add: install_def oscall_def)

lemma addFramelessWindow_list:
  "m_framelessWindows (addFramelessWindow env s window data) =
     (if window \<noteq> 0 \<and> window \<notin> set (m_framelessWindows s)
      then m_framelessWindows s @ [window] else m_framelessWindows s)"
  by (simp add: addFramelessWindow_def Let_def install_list createUserData_list
        split: option.split)

lemma addFramelessWindow_again:
  "addFramelessWindow env (addFramelessWindow env s window d1) window d2
     = addFramelessWindow env s window d1"
proof -
  have "window = 0 \<or> window \<in> set (m_framelessWindows (addFramelessWindow env s window d1))"
    by (simp add: addFramelessWindow_list)
  then show ?thesis
    by (auto simp add: addFramelessWindow_def [of env "addFramelessWindow env s window d1"])
qed

lemma addFramelessWindow_data:
  assumes "window \<noteq> 0"
  shows "map_option windowData
           (GWLP_USERDATA (addFramelessWindow env s window (Some d1)) window)
         = (if window \<in> set (m_framelessWindows s)
            then map_option windowData (GWLP_USERDATA s window) else Some d1)"
  using assms
  by (simp add: addFramelessWindow_def Let_def install_slot createUserData_def
        split: option.split)

lemma hostcall_data: "qt_data (hostcall c s) = qt_data s"
  by (simp add: hostcall_def)

lemma addWindow_data:
  "qt_data (addWindow mac q st p) =
     (if isValid_params p \<and> getWindowId p \<notin> dom (qt_data q)
      then (qt_data q)(getWindowId p \<mapsto>
              \<lparr>settings = st, params = p, eventFilter = next_object q\<rparr>)
      else qt_data q)"
  by (simp add: addWindow_def Let_def hostcall_data)

lemma addWindow_again:
  assumes "isValid_params p1" and "getWindowId p2 = getWindowId p1"
  shows "addWindow mac (addWindow mac q st1 p1) st2 p2 = addWindow mac q st1 p1"
proof -
  have "getWindowId p2 \<in> dom (qt_data (addWindow mac q st1 p1))"
    using assms by (auto simp add: addWindow_data)
  then show ?thesis
    by (simp add: addWindow_def [of mac "addWindow mac q st1 p1"] Let_def)
qed

text \<open>
  C7. A second \<open>addFramelessWindow\<close> for the same window changes nothing, whatever data
  it brings: the state after it is the state after the first call, in which the window
  is registered, and a window registered by the first call keeps the data of the first
  call. The same holds for \<open>addWindow\<close> of the toolkit helper, for a first call with
  valid parameters and a second call with the same window id: the table, the objects and
  the calls into the host are those after the first call, and an entry made by the first
  call keeps the first call's settings. Both functions return nothing: that the window
  was already registered shows in the unchanged state only.
\<close>

theorem second_add_is_noop:
  "addFramelessWindow env (addFramelessWindow env s window d1) window d2
     = addFramelessWindow env s window d1
   \<and> (window \<noteq> 0 \<longrightarrow> window \<in> set (m_framelessWindows (addFramelessWindow env s window d1)))
   \<and> (window \<noteq> 0 \<and> window \<notin> set (m_framelessWindows s) \<longrightarrow>
        map_option windowData
          (GWLP_USERDATA
             (addFramelessWindow env (addFramelessWindow env s window (Some w1)) window (Some w2))
             window) = Some w1)
   \<and> (isValid_params p1 \<and> getWindowId p2 = getWindowId p1 \<longrightarrow>
        addWindow mac (addWindow mac q st1 p1) st2 p2 = addWindow mac q st1 p1
        \<and> getWindowId p1 \<in> dom (qt_data (addWindow mac q st1 p1))
        \<and> (getWindowId p1 \<notin> dom (qt_data q) \<longrightarrow>
             map_option settings
               (qt_data (addWindow mac (addWindow mac q st1 p1) st2 p2) (getWindowId p1))
             = Some st1))"
  by (auto simp add: addFramelessWindow_again addFramelessWindow_list addFramelessWindow_data
        addWindow_again addWindow_data)

theorem second_add_is_noop_witness:
  "map_option windowData
     (GWLP_USERDATA
        (addFramelessWindow demoEnv
           (addFramelessWindow demoEnv demoWorld 5 (Some (windowData demoWindow)))
           5 (Some ((windowData demoWindow)\<lparr>wd_borderWidth := 20\<rparr>))) 5)
     = Some (windowData demoWindow)
   \<and> map_option settings
       (qt_data (addWindow False (addWindow False demoQt (1::nat) demoParams) 2 demoParams)
          (getWindowId demoParams))
     = Some 1"
proof -
  note th = second_add_is_noop [where window = 5 and s = demoWorld and env = demoEnv
      and ?w1.0 = "windowData demoWindow"
      and ?w2.0 = "(windowData demoWindow)\<lparr>wd_borderWidth := 20\<rparr>"
      and ?p1.0 = demoParams and ?p2.0 = demoParams and q = demoQt and mac = False
      and ?st1.0 = "1::nat" and ?st2.0 = 2]
  have a: "(5::nat) \<noteq> 0 \<and> 5 \<notin> set (m_framelessWindows demoWorld)"
    by (simp add: demoWorld_def)
  have b: "isValid_params demoParams \<and> getWindowId demoParams = getWindowId demoParams"
    by (simp add: demoParams_def)
  have c: "getWindowId demoParams \<notin> dom (qt_data demoQt)"
    by (simp add: demoQt_def)
  from th a b c show ?thesis by blast
qed

lemma removeFramelessWindow_absent:
  "window = 0 \<or> window \<notin> set (m_framelessWindows s) \<Longrightarrow> removeFramelessWindow s window = s"
  by (auto simp add: removeFramelessWindow_def)

lemma removeWindow_null:
  "removeWindow P m None = (if QT_NO_DEBUG P then Some m else None)"
  by (simp add: removeWindow_def)

lemma removeWindow_absent:
  "winId w \<notin> set (windowIds m) \<Longrightarrow> appliedWinId P (helpers m) w = 0 \<Longrightarrow>
     removeWindow P m (Some w) = Some m"
  by (simp add: removeWindow_def Let_def)

lemma removeWindow_recalled:
  "winId w \<notin> set (windowIds m) \<Longrightarrow> appliedWinId P (helpers m) w \<noteq> 0 \<Longrightarrow>
     removeWindow P m (Some w) =
       Some \<lparr>windowIds = removeAll (appliedWinId P (helpers m) w) (windowIds m),
             helpers =
               (let a = appliedWinId P (helpers m) w;
                    h1 = (if usePureQtImplementation P
                          then helperQt_removeWindow P w (helpers m) else helpers m)
                in if Q_OS_WINDOWS P then
                     uninstallSystemMenuHook P a
                       (if \<not> usePureQtImplementation P
                        then helperWin_removeWindow P a h1 else h1)
                   else h1)\<rparr>"
  by (simp add: removeWindow_def removeWindow_found_def Let_def)

text \<open>
  C8, as the code has it. \<open>removeFramelessWindow\<close> for the null handle or a handle that
  is not registered changes nothing. The manager's \<open>removeWindow\<close> for the null window
  changes nothing in a release build; in a debug build its assertion stops the program.
  For a window whose id is not in the list it asks the helper modules under which id the
  window was set up (\<open>appliedWinId\<close>): when they recall none (the answer is 0) nothing
  changes; when they recall one, every occurrence of the recalled id is taken off the
  list (none, if it is not listed either) and the helper modules are told to remove the
  window, as for a registered window. Neither function returns a value.
\<close>

theorem remove_unregistered_is_noop:
  "(window = 0 \<or> window \<notin> set (m_framelessWindows s) \<longrightarrow> removeFramelessWindow s window = s)
   \<and> removeWindow P m None = (if QT_NO_DEBUG P then Some m else None)
   \<and> (winId w \<notin> set (windowIds m) \<and> appliedWinId P (helpers m) w = 0 \<longrightarrow>
        removeWindow P m (Some w) = Some m)
   \<and> (winId w \<notin> set (windowIds m) \<and> appliedWinId P (helpers m) w \<noteq> 0 \<longrightarrow>
        removeWindow P m (Some w) =
          Some \<lparr>windowIds = removeAll (appliedWinId P (helpers m) w) (windowIds m),
                helpers =
                  (let a = appliedWinId P (helpers m) w;
                       h1 = (if usePureQtImplementation P
                             then helperQt_removeWindow P w (helpers m) else helpers m)
                   in if Q_OS_WINDOWS P then
                        uninstallSystemMenuHook P a
                          (if \<not> usePureQtImplementation P
                           then helperWin_removeWindow P a h1 else h1)
                      else h1)\<rparr>)"
  using removeFramelessWindow_absent [of window s] removeWindow_null [of P m]
    removeWindow_absent [of w m P] removeWindow_recalled [of w m P]
  by blast

theorem remove_unregistered_is_noop_witness:
  "removeFramelessWindow demoWorld 5 = demoWorld
   \<and> removeFramelessWindow demoWorld 0 = demoWorld
   \<and> removeWindow demoHelpers demoManager None = Some demoManager
   \<and> removeWindow (demoHelpers\<lparr>appliedWinId := (\<lambda>h w. 0)\<rparr>) demoManager
        (Some \<lparr>has_handle = True, winId = 5\<rparr>) = Some demoManager
   \<and> removeWindow demoHelpers demoManager (Some \<lparr>has_handle = True, winId = 5\<rparr>)
       = Some \<lparr>windowIds = [], helpers = ()\<rparr>
   \<and> removeWindow demoHelpers (demoManager\<lparr>windowIds := [9]\<rparr>)
        (Some \<lparr>has_handle = True, winId = 5\<rparr>)
       = Some \<lparr>windowIds = [9], helpers = ()\<rparr>"
  using remove_unregistered_is_noop [where window = 5 and s = demoWorld
      and w = "\<lparr>has_handle = True, winId = 5\<rparr>" and m = demoManager
      and P = "demoHelpers\<lparr>appliedWinId := (\<lambda>h w. 0)\<rparr>"]
    remove_unregistered_is_noop [where window = 0 and s = demoWorld
      and w = "\<lparr>has_handle = True, winId = 5\<rparr>" and m = demoManager and P = demoHelpers]
    remove_unregistered_is_noop [where window = 0 and s = demoWorld
      and w = "\<lparr>has_handle = True, winId = 5\<rparr>" and m = "demoManager\<lparr>windowIds := [9]\<rparr>"
      and P = demoHelpers]
  by (simp add: demoWorld_def demoManager_def demoHelpers_def)

text \<open>
  C8 as stated fails for the manager. In a debug build \<open>removeWindow\<close> for the null
  window does not return: the assertion stops the program. And where the helper modules
  recall an id for a window whose own id is not in the list, the list changes: here the
  window's id 5 is not in the list, the helper modules recall id 7, and \<open>removeWindow\<close>
  takes 7 off the list.
\<close>

theorem remove_unregistered_is_noop_counterexample:
  "removeWindow (demoHelpers\<lparr>QT_NO_DEBUG := False\<rparr>) demoManager None = None
   \<and> windowIds demoManager = [7]
   \<and> winId \<lparr>has_handle = True, winId = 5\<rparr> \<notin> set (windowIds demoManager)
   \<and> appliedWinId demoHelpers (helpers demoManager) \<lparr>has_handle = True, winId = 5\<rparr> = 7
   \<and> removeWindow demoHelpers demoManager (Some \<lparr>has_handle = True, winId = 5\<rparr>)
       = Some \<lparr>windowIds = [], helpers = ()\<rparr>"
  by (simp add: removeWindow_def removeWindow_found_def demoManager_def demoHelpers_def)

end
